theory Spec2Isabelle
  imports Main
begin

section \<open>JavaScript values, errors and responses\<close>

text \<open>
  The route handlers of the application receive a request, call server actions of
  \<^verbatim>\<open>@/lib/actions\<close> and \<^verbatim>\<open>@/lib/utils\<close> and build a response. The
  handlers are modelled from their source; the actions they import are parameters of the
  model. A request body is whatever \<^verbatim>\<open>req.json()\<close> parses, any JSON value, and a
  value an action returns is an arbitrary JavaScript value.

  A string is the list of its UTF-16 code units, numbers below 65536. The texts of the
  sources are ASCII; \<open>js\<close> gives the code units of such a text.
\<close>

type_synonym jsstring = "nat list"

definition js :: "string \<Rightarrow> jsstring" where
  "js s = map of_char s"

text \<open>
  A number is carried as the text that \<^verbatim>\<open>String(n)\<close> gives for it
  (\<^verbatim>\<open>123456\<close> as \<^verbatim>\<open>"123456"\<close>, \<^verbatim>\<open>0.5\<close> as \<^verbatim>\<open>"0.5"\<close>, both zeros
  as \<^verbatim>\<open>"0"\<close>): the handlers test a number for truthiness and convert it to a
  string. An array is the list of its elements and an object is the list of its own
  properties, each name once.
\<close>

datatype jsval =
    JUndefined
  | JNull
  | JBool bool
  | JNum jsstring
  | JStr jsstring
  | JArr "jsval list"
  | JObj "(jsstring \<times> jsval) list"

text \<open>\<^verbatim>\<open>!!v\<close>\<close>

fun truthy :: "jsval \<Rightarrow> bool" where
  "truthy JUndefined = False"
| "truthy JNull = False"
| "truthy (JBool b) = b"
| "truthy (JNum t) = (t \<noteq> js ''0'' \<and> t \<noteq> js ''NaN'')"
| "truthy (JStr s) = (s \<noteq> [])"
| "truthy (JArr xs) = True"
| "truthy (JObj kvs) = True"

text \<open>\<^verbatim>\<open>typeof v === 'object'\<close>\<close>

fun typeof_object :: "jsval \<Rightarrow> bool" where
  "typeof_object JNull = True"
| "typeof_object (JArr xs) = True"
| "typeof_object (JObj kvs) = True"
| "typeof_object v = False"

text \<open>
  \<^verbatim>\<open>v?.k\<close> for the property names that the handlers read (\<^verbatim>\<open>email\<close>,
  \<^verbatim>\<open>password\<close>, \<^verbatim>\<open>name\<close>, \<^verbatim>\<open>token\<close>, \<^verbatim>\<open>code\<close>, \<^verbatim>\<open>userId\<close> and
  the properties of a stored record), none of which a string, an array or
  \<^verbatim>\<open>Object.prototype\<close> has: an object gives its own property or undefined, any
  other value gives undefined. Every handler reads \<^verbatim>\<open>v.k\<close> without the question
  mark only behind a truthiness test of \<^verbatim>\<open>v\<close>.
\<close>

fun get_prop :: "jsval \<Rightarrow> jsstring \<Rightarrow> jsval" where
  "get_prop (JObj kvs) k = (case map_of kvs k of None \<Rightarrow> JUndefined | Some v \<Rightarrow> v)"
| "get_prop v k = JUndefined"

text \<open>
  A thrown value, as the \<^verbatim>\<open>catch\<close> blocks read it: \<^verbatim>\<open>err.name\<close>,
  \<^verbatim>\<open>err.message\<close>, \<^verbatim>\<open>err.code\<close> (compared with string literals only, so a
  code that is not a string is \<open>None\<close>), \<^verbatim>\<open>err.statusCode\<close> and
  \<^verbatim>\<open>err.meta.target[0]\<close>.
\<close>

record js_error =
  err_name :: jsstring
  err_message :: jsstring
  err_code :: "jsstring option"
  err_statusCode :: "nat option"
  err_target :: "jsstring option"

text \<open>\<^verbatim>\<open>new Error(message)\<close>\<close>

definition Error :: "jsstring \<Rightarrow> js_error" where
  "Error m = \<lparr>err_name = js ''Error'', err_message = m, err_code = None,
     err_statusCode = None, err_target = None\<rparr>"

text \<open>
  The \<^verbatim>\<open>TypeError\<close> that the language throws when a handler calls a method that
  the value does not have, or converts a value that has no string form. The messages are
  those of the V8 engine for the source as written.
\<close>

definition TypeError :: "jsstring \<Rightarrow> js_error" where
  "TypeError m = \<lparr>err_name = js ''TypeError'', err_message = m, err_code = None,
     err_statusCode = None, err_target = None\<rparr>"

text \<open>The result of an evaluation or of awaiting an action: it throws or it returns.\<close>

datatype 'a outcome = Throws js_error | Returns 'a

text \<open>
  \<^verbatim>\<open>error_response(message, status, details?)\<close> and
  \<^verbatim>\<open>success_response(data, message, status)\<close> of \<^verbatim>\<open>@/lib/utils\<close> build the
  response; the model keeps their arguments. The details of a failed schema validation
  are the issues of the schema, a path and a message each.
\<close>

type_synonym zod_issue = "jsstring list \<times> jsstring"

datatype response =
    error_response jsstring nat
  | error_response_details jsstring nat "zod_issue list"
  | success_response jsval jsstring nat

fun status_code :: "response \<Rightarrow> nat" where
  "status_code (error_response m s) = s"
| "status_code (error_response_details m s d) = s"
| "status_code (success_response d m s) = s"

fun is_success :: "response \<Rightarrow> bool" where
  "is_success (success_response d m s) = True"
| "is_success r = False"

text \<open>\<^verbatim>\<open>(err as any)?.message || fallback\<close>\<close>

definition message_or :: "js_error \<Rightarrow> jsstring \<Rightarrow> jsstring" where
  "message_or err fallback = (if err_message err = [] then fallback else err_message err)"

text \<open>\<^verbatim>\<open>(err as any)?.statusCode || 500\<close>\<close>

definition statusCode_or_500 :: "js_error \<Rightarrow> nat" where
  "statusCode_or_500 err =
     (case err_statusCode err of None \<Rightarrow> 500 | Some n \<Rightarrow> if n = 0 then 500 else n)"

section \<open>Strings\<close>

text \<open>\<^verbatim>\<open>s.startsWith(p)\<close>, with the prefix first.\<close>

fun starts_with :: "'a list \<Rightarrow> 'a list \<Rightarrow> bool" where
  "starts_with [] s = True"
| "starts_with (p # ps) [] = False"
| "starts_with (p # ps) (c # cs) = (p = c \<and> starts_with ps cs)"

text \<open>\<^verbatim>\<open>s.includes(p)\<close>\<close>

fun js_includes :: "'a list \<Rightarrow> 'a list \<Rightarrow> bool" where
  "js_includes [] p = (p = [])"
| "js_includes (c # cs) p = (starts_with p (c # cs) \<or> js_includes cs p)"

text \<open>\<^verbatim>\<open>xs.join(sep)\<close> for an array of strings.\<close>

fun js_join :: "'a list \<Rightarrow> 'a list list \<Rightarrow> 'a list" where
  "js_join sep [] = []"
| "js_join sep [x] = x"
| "js_join sep (x # y # ys) = x @ sep @ js_join sep (y # ys)"

text \<open>
  The class \<^verbatim>\<open>\s\<close> of a regular expression, which is also what
  \<^verbatim>\<open>trim()\<close> removes: the white space and the line terminators of the language
  (tab, line feed, vertical tab, form feed, carriage return, space, no-break space,
  U+1680, U+2000 to U+200A, U+2028, U+2029, U+202F, U+205F, U+3000 and U+FEFF).
\<close>

definition is_ws :: "nat \<Rightarrow> bool" where
  "is_ws c =
     (c \<in> {9, 10, 11, 12, 13, 32, 160, 5760, 8232, 8233, 8239, 8287, 12288, 65279} \<or>
      (8192 \<le> c \<and> c \<le> 8202))"

text \<open>\<^verbatim>\<open>\d\<close>: the code units of 0 to 9.\<close>

definition digit_unit :: "nat \<Rightarrow> bool" where
  "digit_unit c = (48 \<le> c \<and> c \<le> 57)"

text \<open>\<^verbatim>\<open>/^\d{6}$/\<close> on a string.\<close>

definition sixDigitRegex :: "jsstring \<Rightarrow> bool" where
  "sixDigitRegex s = (length s = 6 \<and> list_all digit_unit s)"

text \<open>\<^verbatim>\<open>[^\s@]\<close>; 64 is the code unit of \<^verbatim>\<open>@\<close>.\<close>

definition email_unit :: "nat \<Rightarrow> bool" where
  "email_unit c = (\<not> is_ws c \<and> c \<noteq> 64)"

text \<open>
  \<^verbatim>\<open>/^[^\s@]+@[^\s@]+\.[^\s@]+$/\<close> on a string: a non-empty run of code units
  that are neither white space nor \<^verbatim>\<open>@\<close>, one \<^verbatim>\<open>@\<close>, and a rest of such code
  units with a dot (46) that is neither its first nor its last.
\<close>

definition emailRegex :: "jsstring \<Rightarrow> bool" where
  "emailRegex s =
     (takeWhile email_unit s \<noteq> [] \<and>
      (case dropWhile email_unit s of
         [] \<Rightarrow> False
       | c # d \<Rightarrow> c = 64 \<and> list_all email_unit d \<and> 46 \<in> set (butlast (tl d))))"

text \<open>\<^verbatim>\<open>s.trim()\<close>\<close>

definition trim :: "jsstring \<Rightarrow> jsstring" where
  "trim s = rev (dropWhile is_ws (rev (dropWhile is_ws s)))"

text \<open>
  \<^verbatim>\<open>String(v)\<close>, the conversion that \<^verbatim>\<open>RegExp.prototype.test\<close> applies to its
  argument. An array joins the string forms of its elements with commas, null and
  undefined elements giving the empty string. An object gives
  \<^verbatim>\<open>[object Object]\<close>, unless it has an own property \<^verbatim>\<open>toString\<close>: a parsed
  value is never a function, so neither it nor \<^verbatim>\<open>valueOf\<close> yields a primitive and
  the conversion throws a \<^verbatim>\<open>TypeError\<close>, which is \<open>None\<close> here.
\<close>

fun js_toString :: "jsval \<Rightarrow> jsstring option" where
  "js_toString JUndefined = Some (js ''undefined'')"
| "js_toString JNull = Some (js ''null'')"
| "js_toString (JBool b) = Some (if b then js ''true'' else js ''false'')"
| "js_toString (JNum t) = Some t"
| "js_toString (JStr s) = Some s"
| "js_toString (JArr xs) =
     (if None \<in> set (map (\<lambda>x. if x = JUndefined \<or> x = JNull then Some [] else js_toString x) xs)
      then None
      else Some (js_join (js '','')
             (map (\<lambda>x. if x = JUndefined \<or> x = JNull then [] else the (js_toString x)) xs)))"
| "js_toString (JObj kvs) =
     (if map_of kvs (js ''toString'') = None then Some (js ''[object Object]'') else None)"

text \<open>\<^verbatim>\<open>regex.test(v)\<close> for a regular expression given by its test on strings.\<close>

definition regex_test :: "(jsstring \<Rightarrow> bool) \<Rightarrow> jsval \<Rightarrow> bool outcome" where
  "regex_test regex v =
     (case js_toString v of
        None \<Rightarrow> Throws (TypeError (js ''Cannot convert object to primitive value''))
      | Some s \<Rightarrow> Returns (regex s))"

text \<open>
  The receiver of a string method: a string has the methods \<^verbatim>\<open>split\<close>,
  \<^verbatim>\<open>toLowerCase\<close> and \<^verbatim>\<open>trim\<close>; no other parsed value has a function for
  them, and the call throws a \<^verbatim>\<open>TypeError\<close>.
\<close>

fun as_string :: "jsval \<Rightarrow> jsstring option" where
  "as_string (JStr s) = Some s"
| "as_string v = None"

text \<open>
  Two operations of the language are parameters of the model.
  \<^verbatim>\<open>String.prototype.toLowerCase\<close> is the case mapping of the Unicode tables.
  \<open>lessThan8 x\<close> is the comparison \<^verbatim>\<open>x < 8\<close> for a parsed value \<^verbatim>\<open>x\<close>
  found as the \<^verbatim>\<open>length\<close> property of an object: it converts \<^verbatim>\<open>x\<close> to a
  number, and throws when \<^verbatim>\<open>x\<close> has no primitive form.
\<close>

record runtime =
  toLowerCase :: "jsstring \<Rightarrow> jsstring"
  lessThan8 :: "jsval \<Rightarrow> bool outcome"

text \<open>
  \<^verbatim>\<open>v.length < 8\<close> for a truthy value: a string has its number of code units and
  an array its number of elements; an object has its own \<^verbatim>\<open>length\<close> property or
  undefined; a number and \<^verbatim>\<open>true\<close> have undefined. Undefined is not below 8.
\<close>

fun length_below_8 :: "runtime \<Rightarrow> jsval \<Rightarrow> bool outcome" where
  "length_below_8 rt (JStr s) = Returns (length s < 8)"
| "length_below_8 rt (JArr xs) = Returns (length xs < 8)"
| "length_below_8 rt (JObj kvs) =
     (case map_of kvs (js ''length'') of None \<Rightarrow> Returns False | Some x \<Rightarrow> lessThan8 rt x)"
| "length_below_8 rt v = Returns False"

section \<open>Requests\<close>

text \<open>
  What \<^verbatim>\<open>await req.json()\<close> gives: it throws on a body that is not JSON, or it
  returns the parsed value, which may be any JSON value. Of the headers, the handlers
  read \<^verbatim>\<open>Authorization\<close>.
\<close>

datatype body = InvalidJson | Parsed jsval

record request =
  authorization :: "jsstring option"
  req_body :: body

text \<open>\<^verbatim>\<open>!!s\<close> for an optional string: present and not empty.\<close>

fun present :: "jsstring option \<Rightarrow> bool" where
  "present None = False"
| "present (Some s) = (s \<noteq> [])"

section \<open>The token check of the protected routes\<close>

text \<open>
  \<^verbatim>\<open>validateUserToken\<close> of the 2FA routes. \<^verbatim>\<open>validateToken\<close> of
  \<^verbatim>\<open>@/lib/utils\<close> is a parameter: it throws or returns the decoded token. It
  does not take the store: a session token is a signed claim set that is checked without
  a database round trip.
\<close>

definition validateUserToken :: "(jsstring \<Rightarrow> jsval outcome) \<Rightarrow> request \<Rightarrow> jsval outcome" where
  "validateUserToken validateToken req =
     (if \<not> present (authorization req) then Throws (Error (js ''Authorization token is required''))
      else
        (case validateToken (the (authorization req)) of
           Throws tokenError \<Rightarrow> Throws (Error (js ''Invalid or expired token''))
         | Returns validatedToken \<Rightarrow>
             if \<not> truthy validatedToken \<or> \<not> truthy (get_prop validatedToken (js ''userId''))
             then Throws (Error (js ''Invalid token: missing user ID''))
             else Returns (get_prop validatedToken (js ''userId''))))"

section \<open>The 2FA routes (by session token)\<close>

text \<open>
  An action of \<^verbatim>\<open>@/lib/actions\<close> reads and writes the database: it takes the store
  and returns its outcome with the store it leaves. A handler returns its response and
  the store.
\<close>

type_synonym ('a, 's) action = "'a \<Rightarrow> 's \<Rightarrow> jsval outcome \<times> 's"

text \<open>The \<^verbatim>\<open>catch\<close> block of \<^verbatim>\<open>PUT /api/twofa\<close>.\<close>

definition twofa_PUT_catch :: "js_error \<Rightarrow> response" where
  "twofa_PUT_catch err =
     (if js_includes (err_message err) (js ''token'') then error_response (err_message err) 401
      else if js_includes (err_message err) (js ''Invalid'') \<or>
              js_includes (err_message err) (js ''expired'')
      then error_response (js ''Invalid or expired 2FA token'') 401
      else if err_code err = Some (js ''P2025'')
      then error_response (js ''2FA not found for this user'') 404
      else error_response (message_or err (js ''2FA verification failed'')) 400)"

text \<open>
  \<^verbatim>\<open>PUT /api/twofa\<close> (Verify2fa). The submitted code goes to the pattern and to
  \<^verbatim>\<open>verify2fa\<close> as it was parsed.
\<close>

definition twofa_PUT ::
  "(jsstring \<Rightarrow> jsval outcome) \<Rightarrow> (jsval \<times> jsval, 's) action \<Rightarrow> request \<Rightarrow> 's \<Rightarrow> response \<times> 's" where
  "twofa_PUT validateToken verify2fa req st =
     (case validateUserToken validateToken req of
        Throws err \<Rightarrow> (twofa_PUT_catch err, st)
      | Returns userId \<Rightarrow>
          (case req_body req of
             InvalidJson \<Rightarrow> (error_response (js ''Invalid JSON in request body'') 400, st)
           | Parsed body \<Rightarrow>
               if \<not> truthy body \<or> \<not> typeof_object body
               then (error_response (js ''Request body must be a valid JSON object'') 400, st)
               else if \<not> truthy (get_prop body (js ''token''))
               then (error_response (js ''2FA token is required'') 400, st)
               else
                 (case regex_test sixDigitRegex (get_prop body (js ''token'')) of
                    Throws err \<Rightarrow> (twofa_PUT_catch err, st)
                  | Returns matches \<Rightarrow>
                      if \<not> matches then (error_response (js ''2FA token must be 6 digits'') 400, st)
                      else
                        (case verify2fa (userId, get_prop body (js ''token'')) st of
                           (Throws err, st') \<Rightarrow> (twofa_PUT_catch err, st')
                         | (Returns twofa, st') \<Rightarrow>
                             if \<not> truthy twofa
                             then (error_response (js ''Invalid or expired 2FA token'') 401, st')
                             else (success_response twofa (js ''2FA verified successfully'') 200, st')))))"

section \<open>The 2FA routes by email\<close>

text \<open>The \<^verbatim>\<open>catch\<close> block of \<^verbatim>\<open>PUT /api/twofa-by-email\<close>.\<close>

definition twofa_by_email_PUT_catch :: "js_error \<Rightarrow> response" where
  "twofa_by_email_PUT_catch err =
     (if err_name err = js ''ValidationError'' then error_response (js ''Input validation failed'') 400
      else if js_includes (err_message err) (js ''Invalid'') \<or>
              js_includes (err_message err) (js ''expired'')
      then error_response (js ''Invalid or expired 2FA token'') 401
      else if err_code err = Some (js ''P2025'')
      then error_response (js ''2FA not found or user not found'') 404
      else if err_name err = js ''TooManyRequestsError''
      then error_response (js ''Too many verification attempts. Please try again later.'') 429
      else if err_code err = Some (js ''ECONNREFUSED'') \<or> err_name err = js ''ConnectionError''
      then error_response (js ''Database connection failed'') 503
      else error_response (message_or err (js ''2FA verification failed'')) 500)"

text \<open>
  \<^verbatim>\<open>PUT /api/twofa-by-email\<close> (VerifyTwofaTokenByEmail). The email and the code go
  to the patterns as they were parsed; the email is lower-cased and trimmed after both
  tests, and the code goes to the action as it was parsed. The time stamp of the success
  body is the clock's, a parameter.
\<close>

definition twofa_by_email_PUT ::
  "runtime \<Rightarrow> jsstring \<Rightarrow> (jsstring \<times> jsval, 's) action \<Rightarrow> request \<Rightarrow> 's \<Rightarrow> response \<times> 's" where
  "twofa_by_email_PUT rt now verifyTwofaTokenByEmail req st =
     (case req_body req of
        InvalidJson \<Rightarrow> (error_response (js ''Invalid JSON in request body'') 400, st)
      | Parsed body \<Rightarrow>
          if \<not> truthy body \<or> \<not> typeof_object body
          then (error_response (js ''Request body must be a valid JSON object'') 400, st)
          else if \<not> truthy (get_prop body (js ''email'')) \<and> \<not> truthy (get_prop body (js ''token''))
          then (error_response (js ''Email and 2FA token are required'') 400, st)
          else if \<not> truthy (get_prop body (js ''email''))
          then (error_response (js ''Email is required'') 400, st)
          else if \<not> truthy (get_prop body (js ''token''))
          then (error_response (js ''2FA token is required'') 400, st)
          else
            (case regex_test emailRegex (get_prop body (js ''email'')) of
               Throws err \<Rightarrow> (twofa_by_email_PUT_catch err, st)
             | Returns email_matches \<Rightarrow>
                 if \<not> email_matches then (error_response (js ''Invalid email format'') 400, st)
                 else
                   (case regex_test sixDigitRegex (get_prop body (js ''token'')) of
                      Throws err \<Rightarrow> (twofa_by_email_PUT_catch err, st)
                    | Returns token_matches \<Rightarrow>
                        if \<not> token_matches
                        then (error_response (js ''2FA token must be 6 digits'') 400, st)
                        else
                          (case as_string (get_prop body (js ''email'')) of
                             None \<Rightarrow>
                               (twofa_by_email_PUT_catch
                                  (TypeError (js ''email.toLowerCase is not a function'')), st)
                           | Some email \<Rightarrow>
                               (case verifyTwofaTokenByEmail
                                       (trim (toLowerCase rt email), get_prop body (js ''token'')) st of
                                  (Throws err, st') \<Rightarrow> (twofa_by_email_PUT_catch err, st')
                                | (Returns verificationResult, st') \<Rightarrow>
                                    if \<not> truthy verificationResult
                                    then (error_response (js ''Invalid or expired 2FA token'') 401, st')
                                    else (success_response
                                            (JObj [(js ''verified'', JBool True),
                                                   (js ''timestamp'', JStr now)])
                                            (js ''2FA verified successfully'') 200, st'))))))"

text \<open>The \<^verbatim>\<open>catch\<close> block of \<^verbatim>\<open>POST /api/twofa-by-email\<close>.\<close>

definition twofa_by_email_POST_catch :: "js_error \<Rightarrow> response" where
  "twofa_by_email_POST_catch err =
     (if err_name err = js ''ValidationError'' then error_response (js ''Email validation failed'') 400
      else if err_code err = Some (js ''P2025'')
      then error_response (js ''2FA not found or not enabled'') 404
      else if err_code err = Some (js ''P2002'') then error_response (js ''Email conflict'') 409
      else if err_code err = Some (js ''ECONNREFUSED'') \<or> err_name err = js ''ConnectionError''
      then error_response (js ''Database connection failed'') 503
      else if err_name err = js ''TooManyRequestsError''
      then error_response (js ''Too many requests. Please try again later.'') 429
      else error_response (message_or err (js ''Failed to fetch 2FA status'')) 500)"

text \<open>\<^verbatim>\<open>POST /api/twofa-by-email\<close> (GetTwofaByEmail).\<close>

definition twofa_by_email_POST ::
  "runtime \<Rightarrow> (jsstring, 's) action \<Rightarrow> request \<Rightarrow> 's \<Rightarrow> response \<times> 's" where
  "twofa_by_email_POST rt getTwofaByEmail req st =
     (case req_body req of
        InvalidJson \<Rightarrow> (error_response (js ''Invalid JSON in request body'') 400, st)
      | Parsed body \<Rightarrow>
          if \<not> truthy body \<or> \<not> typeof_object body
          then (error_response (js ''Request body must be a valid JSON object'') 400, st)
          else if \<not> truthy (get_prop body (js ''email''))
          then (error_response (js ''Email is required'') 400, st)
          else
            (case regex_test emailRegex (get_prop body (js ''email'')) of
               Throws err \<Rightarrow> (twofa_by_email_POST_catch err, st)
             | Returns email_matches \<Rightarrow>
                 if \<not> email_matches then (error_response (js ''Invalid email format'') 400, st)
                 else
                   (case as_string (get_prop body (js ''email'')) of
                      None \<Rightarrow>
                        (twofa_by_email_POST_catch
                           (TypeError (js ''email.toLowerCase is not a function'')), st)
                    | Some email \<Rightarrow>
                        (case getTwofaByEmail (trim (toLowerCase rt email)) st of
                           (Throws err, st') \<Rightarrow> (twofa_by_email_POST_catch err, st')
                         | (Returns twofa, st') \<Rightarrow>
                             if \<not> truthy twofa
                             then (error_response (js ''2FA not found or not enabled'') 404, st')
                             else (success_response
                                     (JObj [(js ''enabled'',
                                        if truthy (get_prop twofa (js ''enabled''))
                                        then get_prop twofa (js ''enabled'') else JBool False)])
                                     (js ''2FA status fetched successfully'') 200, st')))))"

section \<open>The other 2FA routes by session token\<close>

definition twofa_POST_catch :: "js_error \<Rightarrow> response" where
  "twofa_POST_catch err =
     (if js_includes (err_message err) (js ''token'') then error_response (err_message err) 401
      else if err_code err = Some (js ''P2002'')
      then error_response (js ''2FA already exists for this user'') 409
      else if err_name err = js ''DatabaseError''
      then error_response (js ''Database operation failed'') 500
      else error_response (message_or err (js ''Failed to generate 2FA'')) 500)"

text \<open>\<^verbatim>\<open>POST /api/twofa\<close> (Generate2fa).\<close>

definition twofa_POST ::
  "(jsstring \<Rightarrow> jsval outcome) \<Rightarrow> (jsval, 's) action \<Rightarrow> request \<Rightarrow> 's \<Rightarrow> response \<times> 's" where
  "twofa_POST validateToken generate2fa req st =
     (case validateUserToken validateToken req of
        Throws err \<Rightarrow> (twofa_POST_catch err, st)
      | Returns userId \<Rightarrow>
          (case generate2fa userId st of
             (Throws err, st') \<Rightarrow> (twofa_POST_catch err, st')
           | (Returns twofa, st') \<Rightarrow>
               if \<not> truthy twofa then (error_response (js ''Failed to generate 2FA'') 500, st')
               else (success_response twofa (js ''2FA generated successfully'') 201, st')))"

definition twofa_GET_catch :: "js_error \<Rightarrow> response" where
  "twofa_GET_catch err =
     (if js_includes (err_message err) (js ''token'') then error_response (err_message err) 401
      else if err_code err = Some (js ''P2025'')
      then success_response (JObj [(js ''enabled'', JBool False)]) (js ''2FA not configured'') 200
      else error_response (message_or err (js ''Failed to fetch 2FA status'')) 500)"

text \<open>\<^verbatim>\<open>GET /api/twofa\<close> (Get2faByUserId).\<close>

definition twofa_GET ::
  "(jsstring \<Rightarrow> jsval outcome) \<Rightarrow> (jsval, 's) action \<Rightarrow> request \<Rightarrow> 's \<Rightarrow> response \<times> 's" where
  "twofa_GET validateToken getTwofaByUserId req st =
     (case validateUserToken validateToken req of
        Throws err \<Rightarrow> (twofa_GET_catch err, st)
      | Returns userId \<Rightarrow>
          (case getTwofaByUserId userId st of
             (Throws err, st') \<Rightarrow> (twofa_GET_catch err, st')
           | (Returns twofa, st') \<Rightarrow>
               (success_response
                  (if truthy twofa then twofa
                   else JObj [(js ''enabled'', JBool False),
                              (js ''message'', JStr (js ''2FA not configured''))])
                  (js ''2FA status fetched successfully'') 200, st')))"

definition twofa_DELETE_catch :: "js_error \<Rightarrow> response" where
  "twofa_DELETE_catch err =
     (if js_includes (err_message err) (js ''token'') then error_response (err_message err) 401
      else if err_code err = Some (js ''P2025'')
      then error_response (js ''2FA not found or already disabled'') 404
      else if err_name err = js ''DatabaseError''
      then error_response (js ''Database operation failed'') 500
      else error_response (message_or err (js ''Failed to disable 2FA'')) 500)"

text \<open>\<^verbatim>\<open>DELETE /api/twofa\<close> (Delete2fa).\<close>

definition twofa_DELETE ::
  "(jsstring \<Rightarrow> jsval outcome) \<Rightarrow> (jsval, 's) action \<Rightarrow> request \<Rightarrow> 's \<Rightarrow> response \<times> 's" where
  "twofa_DELETE validateToken delete2fa req st =
     (case validateUserToken validateToken req of
        Throws err \<Rightarrow> (twofa_DELETE_catch err, st)
      | Returns userId \<Rightarrow>
          (case delete2fa userId st of
             (Throws err, st') \<Rightarrow> (twofa_DELETE_catch err, st')
           | (Returns twofa, st') \<Rightarrow>
               if \<not> truthy twofa
               then (error_response (js ''2FA not found or already disabled'') 404, st')
               else (success_response twofa (js ''2FA disabled successfully'') 200, st')))"

section \<open>The profile route\<close>

definition profile_GET_catch :: "js_error \<Rightarrow> response" where
  "profile_GET_catch err =
     (if err_name err = js ''ValidationError'' then error_response (js ''Token validation failed'') 401
      else if err_name err = js ''JsonWebTokenError''
      then error_response (js ''Invalid token format'') 401
      else if err_name err = js ''TokenExpiredError'' then error_response (js ''Token has expired'') 401
      else if err_code err = Some (js ''P2025'') then error_response (js ''User not found'') 404
      else if err_code err = Some (js ''P2002'') then error_response (js ''User data conflict'') 409
      else if err_code err = Some (js ''ECONNREFUSED'') \<or> err_name err = js ''ConnectionError''
      then error_response (js ''Database connection failed'') 503
      else error_response (message_or err (js ''Internal server error'')) (statusCode_or_500 err))"

text \<open>\<^verbatim>\<open>GET /api/profile\<close>.\<close>

definition profile_GET ::
  "(jsstring \<Rightarrow> jsval outcome) \<Rightarrow> (jsval, 's) action \<Rightarrow> request \<Rightarrow> 's \<Rightarrow> response \<times> 's" where
  "profile_GET validateToken getUserById req st =
     (if \<not> present (authorization req)
      then (error_response (js ''Authorization token is required'') 401, st)
      else
        (case validateToken (the (authorization req)) of
           Throws tokenError \<Rightarrow> (error_response (js ''Invalid or expired token'') 401, st)
         | Returns validatedToken \<Rightarrow>
             if \<not> truthy validatedToken then (error_response (js ''Token validation failed'') 401, st)
             else if \<not> truthy (get_prop validatedToken (js ''userId''))
             then (error_response (js ''Invalid token: missing user ID'') 401, st)
             else
               (case getUserById (get_prop validatedToken (js ''userId'')) st of
                  (Throws err, st') \<Rightarrow> (profile_GET_catch err, st')
                | (Returns user, st') \<Rightarrow>
                    if \<not> truthy user then (error_response (js ''User not found'') 404, st')
                    else (success_response
                            (JObj [(js ''id'', get_prop user (js ''id'')),
                                   (js ''email'', get_prop user (js ''email'')),
                                   (js ''name'', get_prop user (js ''name'')),
                                   (js ''createdAt'', get_prop user (js ''createdAt'')),
                                   (js ''updatedAt'', get_prop user (js ''updatedAt''))])
                            (js ''User fetched successfully'') 200, st'))))"

section \<open>The recovery-code routes\<close>

definition recovery_codes_POST_catch :: "js_error \<Rightarrow> response" where
  "recovery_codes_POST_catch err =
     (if err_name err = js ''ValidationError'' then error_response (js ''Token validation failed'') 401
      else if err_name err = js ''DatabaseError''
      then error_response (js ''Database operation failed'') 500
      else error_response (message_or err (js ''Internal server error'')) 500)"

text \<open>\<^verbatim>\<open>POST /api/recovery-codes\<close> (BulkCreateRecoveryCodes).\<close>

definition recovery_codes_POST ::
  "(jsstring \<Rightarrow> jsval outcome) \<Rightarrow> (jsval, 's) action \<Rightarrow> request \<Rightarrow> 's \<Rightarrow> response \<times> 's" where
  "recovery_codes_POST validateToken bulkCreateRecoveryCodes req st =
     (if \<not> present (authorization req)
      then (error_response (js ''Authorization token is required'') 401, st)
      else
        (case validateToken (the (authorization req)) of
           Throws err \<Rightarrow> (recovery_codes_POST_catch err, st)
         | Returns validatedToken \<Rightarrow>
             if \<not> truthy validatedToken \<or> \<not> truthy (get_prop validatedToken (js ''userId''))
             then (error_response (js ''Invalid or expired token'') 401, st)
             else
               (case bulkCreateRecoveryCodes (get_prop validatedToken (js ''userId'')) st of
                  (Throws err, st') \<Rightarrow> (recovery_codes_POST_catch err, st')
                | (Returns twofa, st') \<Rightarrow>
                    (success_response twofa (js ''Recovery codes generated successfully'') 201, st'))))"

definition recovery_codes_GET_catch :: "js_error \<Rightarrow> response" where
  "recovery_codes_GET_catch err =
     (if err_name err = js ''ValidationError'' then error_response (js ''Token validation failed'') 401
      else error_response (message_or err (js ''Internal server error'')) 500)"

text \<open>\<^verbatim>\<open>GET /api/recovery-codes\<close> (GetAllUserRecoveryCodes).\<close>

definition recovery_codes_GET ::
  "(jsstring \<Rightarrow> jsval outcome) \<Rightarrow> (jsval, 's) action \<Rightarrow> request \<Rightarrow> 's \<Rightarrow> response \<times> 's" where
  "recovery_codes_GET validateToken getAllUserRecoveryCodes req st =
     (if \<not> present (authorization req)
      then (error_response (js ''Authorization token is required'') 401, st)
      else
        (case validateToken (the (authorization req)) of
           Throws err \<Rightarrow> (recovery_codes_GET_catch err, st)
         | Returns validatedToken \<Rightarrow>
             if \<not> truthy validatedToken \<or> \<not> truthy (get_prop validatedToken (js ''userId''))
             then (error_response (js ''Invalid or expired token'') 401, st)
             else
               (case getAllUserRecoveryCodes (get_prop validatedToken (js ''userId'')) st of
                  (Throws err, st') \<Rightarrow> (recovery_codes_GET_catch err, st')
                | (Returns recoveryCodes, st') \<Rightarrow>
                    (success_response recoveryCodes (js ''Recovery codes fetched successfully'') 200,
                     st'))))"

definition recovery_codes_PUT_catch :: "js_error \<Rightarrow> response" where
  "recovery_codes_PUT_catch err =
     (if err_code err = Some (js ''P2025'') then error_response (js ''Recovery code not found'') 404
      else error_response (message_or err (js ''Internal server error'')) 500)"

text \<open>
  \<^verbatim>\<open>PUT /api/recovery-codes\<close> (GetRecoveryCodeForSignin). The email and the code go
  to the action as they were parsed, and whatever the action returns is answered as a
  success.
\<close>

definition recovery_codes_PUT ::
  "(jsval \<times> jsval, 's) action \<Rightarrow> request \<Rightarrow> 's \<Rightarrow> response \<times> 's" where
  "recovery_codes_PUT getRecoveryCodeForSignin req st =
     (case req_body req of
        InvalidJson \<Rightarrow> (error_response (js ''Invalid JSON in request body'') 400, st)
      | Parsed body \<Rightarrow>
          if \<not> truthy (get_prop body (js ''email'')) \<or> \<not> truthy (get_prop body (js ''code''))
          then (error_response (js ''Email and recovery code are required'') 400, st)
          else
            (case regex_test emailRegex (get_prop body (js ''email'')) of
               Throws err \<Rightarrow> (recovery_codes_PUT_catch err, st)
             | Returns email_matches \<Rightarrow>
                 if \<not> email_matches then (error_response (js ''Invalid email format'') 400, st)
                 else
                   (case getRecoveryCodeForSignin
                           (get_prop body (js ''email''), get_prop body (js ''code'')) st of
                      (Throws err, st') \<Rightarrow> (recovery_codes_PUT_catch err, st')
                    | (Returns recoveryCode, st') \<Rightarrow>
                        (success_response recoveryCode
                           (js ''Recovery code status fetched successfully'') 200, st'))))"

section \<open>Login and registration\<close>

text \<open>
  \<^verbatim>\<open>Schema.safeParse(body)\<close> of \<^verbatim>\<open>@/lib/validations\<close>, a parameter: it
  succeeds or it fails with issues.
\<close>

datatype zod_result = ZodSuccess | ZodFailure "zod_issue list"

type_synonym schema = "jsval \<Rightarrow> zod_result"

text \<open>
  \<^verbatim>\<open>issues.map(issue => `${issue.path.join('.')}: ${issue.message}`).join(', ')\<close>
\<close>

definition errorMessages :: "zod_issue list \<Rightarrow> jsstring" where
  "errorMessages issues =
     js_join (js '', '') (map (\<lambda>issue. js_join (js ''.'') (fst issue) @ js '': '' @ snd issue) issues)"

text \<open>
  The debug log of the login and registration handlers,
  \<^verbatim>\<open>body?.email ? "***@" + body.email.split("@")[1] : "missing"\<close>, comes before every
  check of the body: it throws when the email is truthy and not a string.
\<close>

definition debug_log_throws :: "jsval \<Rightarrow> bool" where
  "debug_log_throws body =
     (truthy (get_prop body (js ''email'')) \<and> as_string (get_prop body (js ''email'')) = None)"

definition login_POST_catch :: "js_error \<Rightarrow> response" where
  "login_POST_catch err =
     (if err_name err = js ''ValidationError'' then error_response (js ''Validation failed'') 400
      else if err_name err = js ''AuthenticationError''
      then error_response (js ''Invalid credentials'') 401
      else if err_code err = Some (js ''P2002'') then error_response (js ''Account conflict'') 409
      else if err_code err = Some (js ''P2025'') then error_response (js ''User not found'') 404
      else if err_code err = Some (js ''ECONNREFUSED'') \<or> err_name err = js ''ConnectionError''
      then error_response (js ''Database connection failed'') 503
      else if err_name err = js ''TooManyRequestsError''
      then error_response (js ''Too many login attempts. Please try again later.'') 429
      else error_response (message_or err (js ''Internal server error'')) (statusCode_or_500 err))"

text \<open>
  \<^verbatim>\<open>POST /api/login\<close>. The email and the password go to \<^verbatim>\<open>loginUser\<close> as
  they were parsed.
\<close>

definition login_POST ::
  "schema \<Rightarrow> (jsval \<times> jsval, 's) action \<Rightarrow> request \<Rightarrow> 's \<Rightarrow> response \<times> 's" where
  "login_POST LoginUserInputValidation loginUser req st =
     (case req_body req of
        InvalidJson \<Rightarrow> (error_response (js ''Invalid JSON in request body'') 400, st)
      | Parsed body \<Rightarrow>
          if debug_log_throws body
          then (login_POST_catch (TypeError (js ''body.email.split is not a function'')), st)
          else if \<not> truthy body \<or> \<not> typeof_object body
          then (error_response (js ''Request body must be a valid JSON object'') 400, st)
          else if \<not> truthy (get_prop body (js ''email'')) \<and>
                  \<not> truthy (get_prop body (js ''password''))
          then (error_response (js ''Email and password are required'') 400, st)
          else if \<not> truthy (get_prop body (js ''email''))
          then (error_response (js ''Email is required'') 400, st)
          else if \<not> truthy (get_prop body (js ''password''))
          then (error_response (js ''Password is required'') 400, st)
          else
            (case LoginUserInputValidation body of
               ZodFailure issues \<Rightarrow>
                 (error_response_details (js ''Input validation failed: '' @ errorMessages issues)
                    400 issues, st)
             | ZodSuccess \<Rightarrow>
                 (case loginUser (get_prop body (js ''email''), get_prop body (js ''password'')) st of
                    (Throws err, st') \<Rightarrow> (login_POST_catch err, st')
                  | (Returns loginResult, st') \<Rightarrow>
                      if \<not> truthy loginResult \<or> \<not> truthy (get_prop loginResult (js ''token''))
                      then (error_response (js ''Invalid credentials'') 401, st')
                      else (success_response loginResult (js ''User login successful'') 200, st'))))"

text \<open>The \<^verbatim>\<open>sanitizedData\<close> that registration hands to \<^verbatim>\<open>createUser\<close>.\<close>

record create_user_input =
  cu_email :: jsstring
  cu_password :: jsval
  cu_full_name :: jsstring

text \<open>
  \<^verbatim>\<open>{ email: email.toLowerCase().trim(), password: password,
  full_name: (name || "").trim() }\<close>, evaluated in this order: the email's method
  call throws when the email is not a string, the name's when the name is truthy and
  not a string. The code unit 34 is the double quote of the message.
\<close>

definition sanitizedData :: "runtime \<Rightarrow> jsval \<Rightarrow> create_user_input outcome" where
  "sanitizedData rt body =
     (case as_string (get_prop body (js ''email'')) of
        None \<Rightarrow> Throws (TypeError (js ''email.toLowerCase is not a function''))
      | Some email \<Rightarrow>
          if \<not> truthy (get_prop body (js ''name''))
          then Returns \<lparr>cu_email = trim (toLowerCase rt email),
                        cu_password = get_prop body (js ''password''),
                        cu_full_name = trim []\<rparr>
          else
            (case as_string (get_prop body (js ''name'')) of
               None \<Rightarrow>
                 Throws (TypeError (js ''(name || '' @ [34, 34] @ js '').trim is not a function''))
             | Some name \<Rightarrow>
                 Returns \<lparr>cu_email = trim (toLowerCase rt email),
                          cu_password = get_prop body (js ''password''),
                          cu_full_name = trim name\<rparr>))"

text \<open>The \<^verbatim>\<open>catch\<close> block of the registration handlers.\<close>

definition register_POST_catch :: "js_error \<Rightarrow> response" where
  "register_POST_catch err =
     (if err_name err = js ''ValidationError'' then error_response (js ''Validation failed'') 400
      else if err_code err = Some (js ''P2002'')
      then error_response
             ((case err_target err of
                 None \<Rightarrow> js ''field''
               | Some f \<Rightarrow> if f = [] then js ''field'' else f)
              @ js '' already exists'') 409
      else if err_code err = Some (js ''P2000'') then error_response (js ''Input data too long'') 400
      else if err_code err = Some (js ''P2001'') then error_response (js ''Invalid reference data'') 400
      else if err_code err = Some (js ''ECONNREFUSED'') \<or> err_name err = js ''ConnectionError''
      then error_response (js ''Database connection failed'') 503
      else if err_name err = js ''EmailError''
      then error_response (js ''User created but welcome email failed to send'') 201
      else if err_name err = js ''TooManyRequestsError''
      then error_response (js ''Too many registration attempts. Please try again later.'') 429
      else if err_name err = js ''HashingError''
      then error_response (js ''Password processing failed'') 500
      else error_response (message_or err (js ''Internal server error'')) (statusCode_or_500 err))"

text \<open>
  \<^verbatim>\<open>requiredFields.filter(field => !body[field])\<close> for the required fields
  \<^verbatim>\<open>email\<close> and \<^verbatim>\<open>password\<close>.
\<close>

definition missingFields :: "jsval \<Rightarrow> jsstring list" where
  "missingFields body = filter (\<lambda>field. \<not> truthy (get_prop body field)) [js ''email'', js ''password'']"

text \<open>
  \<^verbatim>\<open>POST /api/register\<close>, the handler of
  \<^verbatim>\<open>app/api/register/route.ts\<close>.
\<close>

definition register_POST ::
  "runtime \<Rightarrow> schema \<Rightarrow> (create_user_input, 's) action \<Rightarrow> request \<Rightarrow> 's \<Rightarrow> response \<times> 's" where
  "register_POST rt CreateUserInputValidation createUser req st =
     (case req_body req of
        InvalidJson \<Rightarrow> (error_response (js ''Invalid JSON in request body'') 400, st)
      | Parsed body \<Rightarrow>
          if debug_log_throws body
          then (register_POST_catch (TypeError (js ''body.email.split is not a function'')), st)
          else if \<not> truthy body \<or> \<not> typeof_object body
          then (error_response (js ''Request body must be a valid JSON object'') 400, st)
          else if missingFields body \<noteq> []
          then (error_response
                  (js ''Missing required fields: '' @ js_join (js '', '') (missingFields body)) 400, st)
          else
            (case CreateUserInputValidation body of
               ZodFailure issues \<Rightarrow>
                 (error_response_details (js ''Input validation failed: '' @ errorMessages issues)
                    400 issues, st)
             | ZodSuccess \<Rightarrow>
                 (case length_below_8 rt (get_prop body (js ''password'')) of
                    Throws err \<Rightarrow> (register_POST_catch err, st)
                  | Returns too_short \<Rightarrow>
                      if too_short
                      then (error_response (js ''Password must be at least 8 characters long'') 400, st)
                      else
                        (case regex_test emailRegex (get_prop body (js ''email'')) of
                           Throws err \<Rightarrow> (register_POST_catch err, st)
                         | Returns email_matches \<Rightarrow>
                             if \<not> email_matches
                             then (error_response (js ''Invalid email format'') 400, st)
                             else
                               (case sanitizedData rt body of
                                  Throws err \<Rightarrow> (register_POST_catch err, st)
                                | Returns input \<Rightarrow>
                                    (case createUser input st of
                                       (Throws err, st') \<Rightarrow> (register_POST_catch err, st')
                                     | (Returns user, st') \<Rightarrow>
                                         if \<not> truthy user
                                         then (error_response (js ''Failed to create user'') 500, st')
                                         else (success_response
                                                 (JObj [(js ''id'', get_prop user (js ''id'')),
                                                        (js ''email'', get_prop user (js ''email'')),
                                                        (js ''name'',
                                                           if truthy (get_prop user (js ''name''))
                                                           then get_prop user (js ''name'')
                                                           else get_prop user (js ''full_name'')),
                                                        (js ''createdAt'',
                                                           get_prop user (js ''createdAt''))])
                                                 (js ''User created successfully'') 201, st')))))))"

text \<open>
  The sources hold two more registration handlers in \<^verbatim>\<open>src/unnamed/part_000\<close>.
  The first one, modelled here, differs from the handler above in the value it hands to
  \<^verbatim>\<open>createUser\<close>,
  \<^verbatim>\<open>{ email: email.toLowerCase().trim(), password: password,
  ...(name && { name: name.trim() }), ...body }\<close>, and in answering the user's
  \<^verbatim>\<open>name\<close> only. Spreading the body last sets each of its properties on the
  object: a name that the object has already gets the body's value.
\<close>

fun set_prop :: "jsstring \<Rightarrow> jsval \<Rightarrow> (jsstring \<times> jsval) list \<Rightarrow> (jsstring \<times> jsval) list" where
  "set_prop k v [] = [(k, v)]"
| "set_prop k v (p # ps) = (if fst p = k then (k, v) # ps else p # set_prop k v ps)"

text \<open>
  \<^verbatim>\<open>{ ...props, ...body }\<close>. The body is an object with an email and a password
  where the handler spreads it; the model adds nothing for another value. A new name
  goes to the end of the list (the language lists integer-like names first, which no
  handler observes).
\<close>

fun spread :: "(jsstring \<times> jsval) list \<Rightarrow> jsval \<Rightarrow> (jsstring \<times> jsval) list" where
  "spread props (JObj kvs) = fold (\<lambda>kv. set_prop (fst kv) (snd kv)) kvs props"
| "spread props v = props"

definition sanitizedData_spread :: "runtime \<Rightarrow> jsval \<Rightarrow> jsval outcome" where
  "sanitizedData_spread rt body =
     (case as_string (get_prop body (js ''email'')) of
        None \<Rightarrow> Throws (TypeError (js ''email.toLowerCase is not a function''))
      | Some email \<Rightarrow>
          if \<not> truthy (get_prop body (js ''name''))
          then Returns (JObj (spread
                 [(js ''email'', JStr (trim (toLowerCase rt email))),
                  (js ''password'', get_prop body (js ''password''))] body))
          else
            (case as_string (get_prop body (js ''name'')) of
               None \<Rightarrow> Throws (TypeError (js ''name.trim is not a function''))
             | Some name \<Rightarrow>
                 Returns (JObj (spread
                   [(js ''email'', JStr (trim (toLowerCase rt email))),
                    (js ''password'', get_prop body (js ''password'')),
                    (js ''name'', JStr (trim name))] body))))"

definition register_POST_spread ::
  "runtime \<Rightarrow> schema \<Rightarrow> (jsval, 's) action \<Rightarrow> request \<Rightarrow> 's \<Rightarrow> response \<times> 's" where
  "register_POST_spread rt CreateUserInputValidation createUser req st =
     (case req_body req of
        InvalidJson \<Rightarrow> (error_response (js ''Invalid JSON in request body'') 400, st)
      | Parsed body \<Rightarrow>
          if debug_log_throws body
          then (register_POST_catch (TypeError (js ''body.email.split is not a function'')), st)
          else if \<not> truthy body \<or> \<not> typeof_object body
          then (error_response (js ''Request body must be a valid JSON object'') 400, st)
          else if missingFields body \<noteq> []
          then (error_response
                  (js ''Missing required fields: '' @ js_join (js '', '') (missingFields body)) 400, st)
          else
            (case CreateUserInputValidation body of
               ZodFailure issues \<Rightarrow>
                 (error_response_details (js ''Input validation failed: '' @ errorMessages issues)
                    400 issues, st)
             | ZodSuccess \<Rightarrow>
                 (case length_below_8 rt (get_prop body (js ''password'')) of
                    Throws err \<Rightarrow> (register_POST_catch err, st)
                  | Returns too_short \<Rightarrow>
                      if too_short
                      then (error_response (js ''Password must be at least 8 characters long'') 400, st)
                      else
                        (case regex_test emailRegex (get_prop body (js ''email'')) of
                           Throws err \<Rightarrow> (register_POST_catch err, st)
                         | Returns email_matches \<Rightarrow>
                             if \<not> email_matches
                             then (error_response (js ''Invalid email format'') 400, st)
                             else
                               (case sanitizedData_spread rt body of
                                  Throws err \<Rightarrow> (register_POST_catch err, st)
                                | Returns input \<Rightarrow>
                                    (case createUser input st of
                                       (Throws err, st') \<Rightarrow> (register_POST_catch err, st')
                                     | (Returns user, st') \<Rightarrow>
                                         if \<not> truthy user
                                         then (error_response (js ''Failed to create user'') 500, st')
                                         else (success_response
                                                 (JObj [(js ''id'', get_prop user (js ''id'')),
                                                        (js ''email'', get_prop user (js ''email'')),
                                                        (js ''name'', get_prop user (js ''name'')),
                                                        (js ''createdAt'',
                                                           get_prop user (js ''createdAt''))])
                                                 (js ''User created successfully'') 201, st')))))))"

section \<open>Properties of the handlers: vocabulary\<close>

text \<open>
  A request's token is rejected when the \<^verbatim>\<open>Authorization\<close> header is missing or
  empty, when \<^verbatim>\<open>validateToken\<close> throws, or when what it returns is falsy or
  carries no \<^verbatim>\<open>userId\<close>.
\<close>

definition token_rejected :: "(jsstring \<Rightarrow> jsval outcome) \<Rightarrow> request \<Rightarrow> bool" where
  "token_rejected validateToken req =
     (\<not> present (authorization req) \<or>
      (case validateToken (the (authorization req)) of
         Throws err \<Rightarrow> True
       | Returns validatedToken \<Rightarrow>
           \<not> truthy validatedToken \<or> \<not> truthy (get_prop validatedToken (js ''userId''))))"

text \<open>
  A handler answers before its action when one failure response is its answer whatever
  the action is, and the store is left as it was: the action is not called.
\<close>

definition answers_before_action ::
  "(('a, 's) action \<Rightarrow> request \<Rightarrow> 's \<Rightarrow> response \<times> 's) \<Rightarrow> request \<Rightarrow> 's \<Rightarrow> bool" where
  "answers_before_action handler req st =
     (\<exists>r. \<not> is_success r \<and> (\<forall>act. handler act req st = (r, st)))"

text \<open>The data of a success response, and the property names of an object.\<close>

fun response_data :: "response \<Rightarrow> jsval" where
  "response_data (success_response d m s) = d"
| "response_data r = JUndefined"

fun object_keys :: "jsval \<Rightarrow> jsstring list" where
  "object_keys (JObj kvs) = map fst kvs"
| "object_keys v = []"

text \<open>
  An action that records what it is called with: the store is the list of the calls
  made so far.
\<close>

definition recording_action :: "jsval \<Rightarrow> ('a, 'a list) action" where
  "recording_action result a calls = (Returns result, calls @ [a])"

text \<open>
  What a request submits under a property name: the property of the parsed body,
  undefined when there is none.
\<close>

definition submitted :: "request \<Rightarrow> string \<Rightarrow> jsval" where
  "submitted req k =
     (case req_body req of InvalidJson \<Rightarrow> JUndefined | Parsed body \<Rightarrow> get_prop body (js k))"

text \<open>
  A submitted value has a string form when \<^verbatim>\<open>String(v)\<close> does not throw, and its
  string form is six digits when the pattern \<^verbatim>\<open>/^\d{6}$/\<close> accepts it: this holds
  of the string \<^verbatim>\<open>"123456"\<close>, and of no string that is not six decimal digits.
\<close>

definition has_string_form :: "jsval \<Rightarrow> bool" where
  "has_string_form v = (js_toString v \<noteq> None)"

definition six_digit_form :: "jsval \<Rightarrow> bool" where
  "six_digit_form v = (case js_toString v of None \<Rightarrow> False | Some s \<Rightarrow> sixDigitRegex s)"

text \<open>
  A runtime for the examples: on ASCII strings its \<^verbatim>\<open>toLowerCase\<close> is the
  language's; its comparison is not called, as no example has an object for a password.
\<close>

definition example_runtime :: runtime where
  "example_runtime =
     \<lparr>toLowerCase = map (\<lambda>c. if 65 \<le> c \<and> c \<le> 90 then c + 32 else c),
      lessThan8 = (\<lambda>x. Returns False)\<rparr>"

section \<open>The recovery-code manager, from the specification\<close>

text \<open>
  Modelled from the spec: the Recovery Code Manager of section 4.3 and its data of
  section 3. \<^verbatim>\<open>bulkCreateRecoveryCodes\<close> and \<^verbatim>\<open>getRecoveryCodeForSignin\<close> of
  \<^verbatim>\<open>@/lib/actions/recovery-codes\<close> are not among the sources; the handlers above only
  call them. A recovery code is stored as the hash of its value with a consumed flag and
  time stamp; a recovery-code set is owned by one user; the store finds a user by email.
  The hash function is a parameter.
\<close>

type_synonym user_id = string

record recovery_code =
  code_hash :: string
  consumed :: bool
  consumed_at :: "nat option"

record recovery_code_set =
  set_owner :: user_id
  set_codes :: "recovery_code list"

record credential_store =
  user_by_email :: "string \<Rightarrow> user_id option"
  recovery_sets :: "recovery_code_set list"

text \<open>Modelled from the spec: the active batch of a user is the set the store holds for it.\<close>

definition active_batch :: "credential_store \<Rightarrow> user_id \<Rightarrow> recovery_code_set option" where
  "active_batch st uid = find (\<lambda>s. set_owner s = uid) (recovery_sets st)"

text \<open>Modelled from the spec: a new code is persisted as its hash, not consumed.\<close>

definition stored_code :: "(string \<Rightarrow> string) \<Rightarrow> string \<Rightarrow> recovery_code" where
  "stored_code H code = \<lparr>code_hash = H code, consumed = False, consumed_at = None\<rparr>"

text \<open>
  Modelled from the spec: \<^verbatim>\<open>generateBatch(userId) -> 16 plaintext codes\<close>. The codes
  drawn are an argument; uniqueness within the batch is checked; the new set replaces
  every set of the user in one step, and the plaintext codes are returned.
\<close>

definition generateBatch ::
  "(string \<Rightarrow> string) \<Rightarrow> string list \<Rightarrow> user_id \<Rightarrow> credential_store \<Rightarrow>
   (string list \<times> credential_store) option" where
  "generateBatch H drawn uid st =
     (if length drawn = 16 \<and> distinct drawn
      then Some (drawn,
             st\<lparr>recovery_sets :=
                  \<lparr>set_owner = uid, set_codes = map (stored_code H) drawn\<rparr> #
                  filter (\<lambda>s. set_owner s \<noteq> uid) (recovery_sets st)\<rparr>)
      else None)"

text \<open>
  Modelled from the spec: compare a hash against the unconsumed hashes of a batch and, on
  a match, mark that single code consumed (flag and time stamp).
\<close>

fun consume_first :: "string \<Rightarrow> nat \<Rightarrow> recovery_code list \<Rightarrow> recovery_code list option" where
  "consume_first h now [] = None"
| "consume_first h now (c # cs) =
     (if \<not> consumed c \<and> code_hash c = h
      then Some (c\<lparr>consumed := True, consumed_at := Some now\<rparr> # cs)
      else map_option ((#) c) (consume_first h now cs))"

fun consume_in_sets ::
  "user_id \<Rightarrow> string \<Rightarrow> nat \<Rightarrow> recovery_code_set list \<Rightarrow> recovery_code_set list option" where
  "consume_in_sets uid h now [] = None"
| "consume_in_sets uid h now (s # ss) =
     (if set_owner s = uid
      then map_option (\<lambda>cs. s\<lparr>set_codes := cs\<rparr> # ss) (consume_first h now (set_codes s))
      else map_option ((#) s) (consume_in_sets uid h now ss))"

text \<open>
  Modelled from the spec: \<^verbatim>\<open>verifyAndConsume(email, submittedCode) -> success/failure\<close>.
  Every failure (unknown email, no active batch, code already consumed, code not found)
  is the same \<open>False\<close> and leaves the store as it was.
\<close>

definition verifyAndConsume ::
  "(string \<Rightarrow> string) \<Rightarrow> nat \<Rightarrow> string \<Rightarrow> string \<Rightarrow> credential_store \<Rightarrow> bool \<times> credential_store" where
  "verifyAndConsume H now email submittedCode st =
     (case user_by_email st email of
        None \<Rightarrow> (False, st)
      | Some uid \<Rightarrow>
          (case consume_in_sets uid (H submittedCode) now (recovery_sets st) of
             None \<Rightarrow> (False, st)
           | Some sets \<Rightarrow> (True, st\<lparr>recovery_sets := sets\<rparr>)))"

section \<open>The TOTP engine, from the specification\<close>

text \<open>
  Modelled from the spec: the TOTP Engine of section 4.2; no code of it is among the
  sources. \<^verbatim>\<open>currentCode(secret, time)\<close> is a deterministic function of the secret
  and the 30-second time step: the function from secret and step to code is a parameter,
  and the time is in seconds.
\<close>

definition currentCode :: "('k \<Rightarrow> nat \<Rightarrow> string) \<Rightarrow> 'k \<Rightarrow> nat \<Rightarrow> string" where
  "currentCode code_of_step secret time = code_of_step secret (time div 30)"

text \<open>
  Modelled from the spec: a TOTP code is a text of exactly 6 decimal digits. The texts of
  the two components of the specification are written with the characters of the logic.
\<close>

definition is_digit :: "char \<Rightarrow> bool" where
  "is_digit c = (c \<in> set ''0123456789'')"

definition is_six_digits :: "string \<Rightarrow> bool" where
  "is_six_digits s = (length s = 6 \<and> list_all is_digit s)"

text \<open>
  Modelled from the spec: \<^verbatim>\<open>verify(secret, submittedCode, time)\<close> rejects a code that
  is not exactly 6 digits, then accepts the code of the current step and the code of
  the immediately preceding step.
\<close>

definition verify :: "('k \<Rightarrow> nat \<Rightarrow> string) \<Rightarrow> 'k \<Rightarrow> string \<Rightarrow> nat \<Rightarrow> bool" where
  "verify code_of_step secret submittedCode time =
     (if \<not> is_six_digits submittedCode then False
      else submittedCode = currentCode code_of_step secret time \<or>
           (30 \<le> time \<and> submittedCode = currentCode code_of_step secret (time - 30)))"

section \<open>Helper lemmas on strings and values\<close>

lemma js_inject [simp]: "js a = js b \<longleftrightarrow> a = b"
  unfolding js_def by (simp add: inj_map_eq_map inj_on_def)

lemma js_Nil [simp]: "js s = [] \<longleftrightarrow> s = []" "[] = js s \<longleftrightarrow> s = []"
  unfolding js_def by auto

lemma length_js [simp]: "length (js s) = length s"
  unfolding js_def by simp

lemma starts_with_map:
  assumes "inj f"
  shows "starts_with (map f p) (map f s) = starts_with p s"
proof (induction p s rule: starts_with.induct)
  case (3 p ps c cs)
  then show ?case using assms by (simp add: inj_eq)
qed simp_all

lemma js_includes_map:
  assumes "inj f"
  shows "js_includes (map f s) (map f p) = js_includes s p"
proof (induction s)
  case Nil
  show ?case by simp
next
  case (Cons c cs)
  have "starts_with (map f p) (map f (c # cs)) = starts_with p (c # cs)"
    by (rule starts_with_map [OF assms])
  with Cons show ?case by simp
qed

lemma js_includes_js [simp]: "js_includes (js s) (js p) = js_includes s p"
  unfolding js_def by (rule js_includes_map) (simp add: inj_on_def)

lemma get_prop_defined:
  assumes "get_prop body k \<noteq> JUndefined"
  shows "\<exists>kvs. body = JObj kvs"
  using assms by (cases body) simp_all

lemma get_prop_truthy:
  assumes "truthy (get_prop body k)"
  shows "truthy body \<and> typeof_object body"
  using assms by (cases body) simp_all

section \<open>Helper lemmas on the handlers\<close>

lemma answers_before_actionI:
  assumes "\<And>act. handler act req st = (r, st)" and "\<not> is_success r"
  shows "answers_before_action handler req st"
  using assms unfolding answers_before_action_def by blast

lemma validateUserToken_rejected:
  assumes "token_rejected validateToken req"
  shows "\<exists>m. validateUserToken validateToken req = Throws (Error (js m)) \<and> js_includes m ''token''"
proof (cases "present (authorization req)")
  case False
  then have "validateUserToken validateToken req = Throws (Error (js ''Authorization token is required''))"
    by (simp add: validateUserToken_def)
  moreover have "js_includes ''Authorization token is required'' ''token''" by simp
  ultimately show ?thesis by blast
next
  case True
  show ?thesis
  proof (cases "validateToken (the (authorization req))")
    case (Throws err)
    with True have "validateUserToken validateToken req = Throws (Error (js ''Invalid or expired token''))"
      by (simp add: validateUserToken_def)
    moreover have "js_includes ''Invalid or expired token'' ''token''" by simp
    ultimately show ?thesis by blast
  next
    case (Returns v)
    with True assms have "validateUserToken validateToken req =
        Throws (Error (js ''Invalid token: missing user ID''))"
      by (auto simp add: validateUserToken_def token_rejected_def)
    moreover have "js_includes ''Invalid token: missing user ID'' ''token''" by simp
    ultimately show ?thesis by blast
  qed
qed

lemma validateUserToken_accepted:
  assumes "\<not> token_rejected validateToken req"
  shows "\<exists>u. validateUserToken validateToken req = Returns u"
  using assms
  by (auto simp add: token_rejected_def validateUserToken_def split: outcome.splits)

lemma twofa_PUT_rejected:
  assumes "token_rejected validateToken req"
  shows "answers_before_action (twofa_PUT validateToken) req st \<and>
         status_code (fst (twofa_PUT validateToken act req st)) = 401"
proof -
  from validateUserToken_rejected [OF assms] obtain m where
    m: "validateUserToken validateToken req = Throws (Error (js m))" "js_includes m ''token''" by blast
  have "answers_before_action (twofa_PUT validateToken) req st"
    by (rule answers_before_actionI [where r = "error_response (js m) 401"])
      (simp_all add: m twofa_PUT_def twofa_PUT_catch_def Error_def)
  then show ?thesis by (simp add: m twofa_PUT_def twofa_PUT_catch_def Error_def)
qed

lemma twofa_POST_rejected:
  assumes "token_rejected validateToken req"
  shows "answers_before_action (twofa_POST validateToken) req st \<and>
         status_code (fst (twofa_POST validateToken act req st)) = 401"
proof -
  from validateUserToken_rejected [OF assms] obtain m where
    m: "validateUserToken validateToken req = Throws (Error (js m))" "js_includes m ''token''" by blast
  have "answers_before_action (twofa_POST validateToken) req st"
    by (rule answers_before_actionI [where r = "error_response (js m) 401"])
      (simp_all add: m twofa_POST_def twofa_POST_catch_def Error_def)
  then show ?thesis by (simp add: m twofa_POST_def twofa_POST_catch_def Error_def)
qed

lemma twofa_GET_rejected:
  assumes "token_rejected validateToken req"
  shows "answers_before_action (twofa_GET validateToken) req st \<and>
         status_code (fst (twofa_GET validateToken act req st)) = 401"
proof -
  from validateUserToken_rejected [OF assms] obtain m where
    m: "validateUserToken validateToken req = Throws (Error (js m))" "js_includes m ''token''" by blast
  have "answers_before_action (twofa_GET validateToken) req st"
    by (rule answers_before_actionI [where r = "error_response (js m) 401"])
      (simp_all add: m twofa_GET_def twofa_GET_catch_def Error_def)
  then show ?thesis by (simp add: m twofa_GET_def twofa_GET_catch_def Error_def)
qed

lemma twofa_DELETE_rejected:
  assumes "token_rejected validateToken req"
  shows "answers_before_action (twofa_DELETE validateToken) req st \<and>
         status_code (fst (twofa_DELETE validateToken act req st)) = 401"
proof -
  from validateUserToken_rejected [OF assms] obtain m where
    m: "validateUserToken validateToken req = Throws (Error (js m))" "js_includes m ''token''" by blast
  have "answers_before_action (twofa_DELETE validateToken) req st"
    by (rule answers_before_actionI [where r = "error_response (js m) 401"])
      (simp_all add: m twofa_DELETE_def twofa_DELETE_catch_def Error_def)
  then show ?thesis by (simp add: m twofa_DELETE_def twofa_DELETE_catch_def Error_def)
qed

lemma profile_GET_rejected:
  assumes "token_rejected validateToken req"
  shows "answers_before_action (profile_GET validateToken) req st \<and>
         status_code (fst (profile_GET validateToken act req st)) = 401"
proof -
  let ?r = "fst (profile_GET validateToken (\<lambda>u s. (Returns JNull, s)) req st)"
  have "\<And>act. profile_GET validateToken act req st = (?r, st)"
    using assms by (auto simp add: token_rejected_def profile_GET_def split: outcome.splits)
  moreover have "\<not> is_success ?r"
    using assms by (auto simp add: token_rejected_def profile_GET_def split: outcome.splits)
  ultimately have "answers_before_action (profile_GET validateToken) req st"
    by (rule answers_before_actionI)
  moreover have "status_code (fst (profile_GET validateToken act req st)) = 401"
    using assms by (auto simp add: token_rejected_def profile_GET_def split: outcome.splits)
  ultimately show ?thesis by simp
qed

lemma twofa_PUT_catch_not_success: "\<not> is_success (twofa_PUT_catch err)"
  by (simp add: twofa_PUT_catch_def)

lemma twofa_by_email_PUT_catch_not_success: "\<not> is_success (twofa_by_email_PUT_catch err)"
  by (simp add: twofa_by_email_PUT_catch_def)

lemma register_POST_catch_not_success: "\<not> is_success (register_POST_catch err)"
  by (simp add: register_POST_catch_def)

lemma twofa_by_email_POST_catch_not_success: "\<not> is_success (twofa_by_email_POST_catch err)"
  by (simp add: twofa_by_email_POST_catch_def)

text \<open>
  What the two verification handlers answer to the \<^verbatim>\<open>TypeError\<close> of a value that
  has no string form.
\<close>

lemma twofa_PUT_catch_no_string_form:
  "twofa_PUT_catch (TypeError (js ''Cannot convert object to primitive value'')) =
     error_response (js ''Cannot convert object to primitive value'') 400"
  by (simp add: twofa_PUT_catch_def TypeError_def message_or_def)

lemma twofa_by_email_PUT_catch_no_string_form:
  "twofa_by_email_PUT_catch (TypeError (js ''Cannot convert object to primitive value'')) =
     error_response (js ''Cannot convert object to primitive value'') 500"
  by (simp add: twofa_by_email_PUT_catch_def TypeError_def message_or_def)

section \<open>Malformed 2FA codes\<close>

lemma twofa_by_email_PUT_malformed:
  assumes "\<not> six_digit_form (submitted req ''token'')"
  shows "answers_before_action (twofa_by_email_PUT rt now) req st"
proof -
  let ?r = "fst (twofa_by_email_PUT rt now (\<lambda>u s. (Returns JNull, s)) req st)"
  have "\<And>act. twofa_by_email_PUT rt now act req st = (?r, st)"
    using assms
    by (simp add: twofa_by_email_PUT_def submitted_def six_digit_form_def regex_test_def
        split: body.splits option.splits)
  moreover have "\<not> is_success ?r"
    using assms
    by (simp add: twofa_by_email_PUT_def submitted_def six_digit_form_def regex_test_def
        twofa_by_email_PUT_catch_not_success split: body.splits option.splits)
  ultimately show ?thesis by (rule answers_before_actionI)
qed

lemma twofa_by_email_PUT_malformed_status:
  assumes "\<not> six_digit_form (submitted req ''token'')"
    and "has_string_form (submitted req ''email'')"
    and "has_string_form (submitted req ''token'')"
  shows "status_code (fst (twofa_by_email_PUT rt now act req st)) = 400"
  using assms
  by (simp add: twofa_by_email_PUT_def submitted_def six_digit_form_def has_string_form_def
      regex_test_def split: body.splits option.splits)

lemma twofa_PUT_malformed:
  assumes "\<not> six_digit_form (submitted req ''token'')"
  shows "answers_before_action (twofa_PUT validateToken) req st \<and>
         status_code (fst (twofa_PUT validateToken act req st)) =
           (if token_rejected validateToken req then 401 else 400)"
proof (cases "token_rejected validateToken req")
  case True
  from twofa_PUT_rejected [OF this] show ?thesis using True by simp
next
  case False
  from validateUserToken_accepted [OF this] obtain u where
    u: "validateUserToken validateToken req = Returns u" by blast
  let ?r = "fst (twofa_PUT validateToken (\<lambda>u s. (Returns JNull, s)) req st)"
  have "\<And>act. twofa_PUT validateToken act req st = (?r, st)"
    using assms u
    by (simp add: twofa_PUT_def submitted_def six_digit_form_def regex_test_def
        split: body.splits option.splits)
  moreover have "\<not> is_success ?r"
    using assms u
    by (simp add: twofa_PUT_def submitted_def six_digit_form_def regex_test_def
        twofa_PUT_catch_not_success split: body.splits option.splits)
  ultimately have "answers_before_action (twofa_PUT validateToken) req st"
    by (rule answers_before_actionI)
  moreover have "status_code (fst (twofa_PUT validateToken act req st)) = 400"
    using assms u
    by (simp add: twofa_PUT_def submitted_def six_digit_form_def regex_test_def
        twofa_PUT_catch_no_string_form split: body.splits option.splits)
  ultimately show ?thesis using False by simp
qed

text \<open>
  Claim C6, as the handlers have it. Both handlers test the string form of the submitted
  2FA code, \<^verbatim>\<open>String(code)\<close>, against \<^verbatim>\<open>/^\d{6}$/\<close>. A submitted code whose
  string form is not exactly six decimal digits (every string that is not six digits,
  and every value that has no string form) never reaches the verification action: both
  handlers answer with a failure before the action is called, and the store is left as
  it was. Verify-2FA by session token answers 400 when the session token is accepted and
  401 when it is rejected (the token check comes first); verify-2FA by email answers 400
  whenever the submitted email and code have string forms.
\<close>

theorem malformed_code_answered_before_verification:
  assumes "\<not> six_digit_form (submitted req ''token'')"
  shows "answers_before_action (twofa_by_email_PUT rt now) req st \<and>
         (has_string_form (submitted req ''email'') \<and> has_string_form (submitted req ''token'') \<longrightarrow>
            status_code (fst (twofa_by_email_PUT rt now verifyTwofaTokenByEmail req st)) = 400) \<and>
         answers_before_action (twofa_PUT validateToken) req st \<and>
         status_code (fst (twofa_PUT validateToken verify2fa req st)) =
           (if token_rejected validateToken req then 401 else 400)"
  by (simp add: twofa_by_email_PUT_malformed [OF assms] twofa_by_email_PUT_malformed_status [OF assms]
      twofa_PUT_malformed [OF assms])

theorem malformed_code_answered_before_verification_witness:
  "\<not> six_digit_form (submitted
      \<lparr>authorization = Some (js ''Bearer abc''),
       req_body = Parsed (JObj [(js ''email'', JStr (js ''user@example.com'')),
                                (js ''token'', JStr (js ''12a456''))])\<rparr> ''token'') \<and>
   answers_before_action (twofa_by_email_PUT example_runtime (js ''2024-01-01T00:00:00.000Z''))
     \<lparr>authorization = Some (js ''Bearer abc''),
      req_body = Parsed (JObj [(js ''email'', JStr (js ''user@example.com'')),
                               (js ''token'', JStr (js ''12a456''))])\<rparr> (0::nat) \<and>
   status_code (fst (twofa_by_email_PUT example_runtime (js ''2024-01-01T00:00:00.000Z'')
     (\<lambda>a s. (Returns (JBool True), Suc s))
     \<lparr>authorization = Some (js ''Bearer abc''),
      req_body = Parsed (JObj [(js ''email'', JStr (js ''user@example.com'')),
                               (js ''token'', JStr (js ''12a456''))])\<rparr> (0::nat))) = 400 \<and>
   answers_before_action (twofa_PUT (\<lambda>t. Returns (JObj [(js ''userId'', JStr (js ''u1''))])))
     \<lparr>authorization = Some (js ''Bearer abc''),
      req_body = Parsed (JObj [(js ''email'', JStr (js ''user@example.com'')),
                               (js ''token'', JStr (js ''12a456''))])\<rparr> (0::nat) \<and>
   status_code (fst (twofa_PUT (\<lambda>t. Returns (JObj [(js ''userId'', JStr (js ''u1''))]))
     (\<lambda>a s. (Returns (JBool True), Suc s))
     \<lparr>authorization = Some (js ''Bearer abc''),
      req_body = Parsed (JObj [(js ''email'', JStr (js ''user@example.com'')),
                               (js ''token'', JStr (js ''12a456''))])\<rparr> (0::nat))) = 400"
proof -
  let ?req = "\<lparr>authorization = Some (js ''Bearer abc''),
      req_body = Parsed (JObj [(js ''email'', JStr (js ''user@example.com'')),
                               (js ''token'', JStr (js ''12a456''))])\<rparr>"
  have six: "\<not> sixDigitRegex (js ''12a456'')"
    by (simp add: sixDigitRegex_def digit_unit_def js_def)
  have malformed: "\<not> six_digit_form (submitted ?req ''token'')"
    by (simp add: six_digit_form_def submitted_def six)
  have forms: "has_string_form (submitted ?req ''email'')" "has_string_form (submitted ?req ''token'')"
    by (simp_all add: has_string_form_def submitted_def)
  have accepted: "\<not> token_rejected (\<lambda>t. Returns (JObj [(js ''userId'', JStr (js ''u1''))])) ?req"
    by (simp add: token_rejected_def)
  show ?thesis
    using malformed forms accepted
      malformed_code_answered_before_verification
        [OF malformed, of example_runtime "js ''2024-01-01T00:00:00.000Z''" "0::nat"
            "\<lambda>a s. (Returns (JBool True), Suc s)"
            "\<lambda>t. Returns (JObj [(js ''userId'', JStr (js ''u1''))])"
            "\<lambda>a s. (Returns (JBool True), Suc s)"]
    by simp
qed

text \<open>
  The claim as stated fails in three ways. On verify-2FA by session token, the malformed
  code \<^verbatim>\<open>12345\<close> sent with no \<^verbatim>\<open>Authorization\<close> header is answered 401, not
  400: the token check comes first. A code that is not a string but has a six-digit
  string form, such as the array \<^verbatim>\<open>["123456"]\<close> or the number
  \<^verbatim>\<open>123456\<close>, passes the pattern test and reaches the verification action as it
  was parsed. An email that has no string form, such as \<^verbatim>\<open>{"toString": 1}\<close>,
  makes verify-2FA by email answer 500 to the malformed code \<^verbatim>\<open>12345\<close>.
\<close>

theorem malformed_code_without_token_counterexample:
  "\<not> sixDigitRegex (js ''12345'') \<and>
   twofa_PUT (\<lambda>t. Returns JNull) (\<lambda>a s. (Returns JNull, s))
     \<lparr>authorization = None,
      req_body = Parsed (JObj [(js ''token'', JStr (js ''12345''))])\<rparr> (0::nat) =
   (error_response (js ''Authorization token is required'') 401, 0) \<and>
   twofa_by_email_PUT example_runtime (js ''2024-01-01T00:00:00.000Z'') (recording_action (JBool True))
     \<lparr>authorization = None,
      req_body = Parsed (JObj [(js ''email'', JStr (js ''user@example.com'')),
                               (js ''token'', JArr [JStr (js ''123456'')])])\<rparr> [] =
   (success_response (JObj [(js ''verified'', JBool True),
                            (js ''timestamp'', JStr (js ''2024-01-01T00:00:00.000Z''))])
      (js ''2FA verified successfully'') 200,
    [(js ''user@example.com'', JArr [JStr (js ''123456'')])]) \<and>
   snd (twofa_PUT (\<lambda>t. Returns (JObj [(js ''userId'', JStr (js ''u1''))])) (recording_action (JBool True))
     \<lparr>authorization = Some (js ''Bearer abc''),
      req_body = Parsed (JObj [(js ''token'', JNum (js ''123456''))])\<rparr> []) =
   [(JStr (js ''u1''), JNum (js ''123456''))] \<and>
   twofa_by_email_PUT example_runtime (js ''2024-01-01T00:00:00.000Z'') (\<lambda>a s. (Returns JNull, s))
     \<lparr>authorization = None,
      req_body = Parsed (JObj [(js ''email'', JObj [(js ''toString'', JNum (js ''1''))]),
                               (js ''token'', JStr (js ''12345''))])\<rparr> (0::nat) =
   (error_response (js ''Cannot convert object to primitive value'') 500, 0)"
proof -
  have five: "\<not> sixDigitRegex (js ''12345'')"
    by (simp add: sixDigitRegex_def)
  have six: "sixDigitRegex (js ''123456'')"
    by (simp add: sixDigitRegex_def digit_unit_def js_def)
  have email: "emailRegex (js ''user@example.com'')"
    by (simp add: emailRegex_def email_unit_def is_ws_def js_def)
  have lower: "trim (toLowerCase example_runtime (js ''user@example.com'')) = js ''user@example.com''"
    by (simp add: example_runtime_def trim_def is_ws_def js_def)
  have no_token: "twofa_PUT (\<lambda>t. Returns JNull) (\<lambda>a s. (Returns JNull, s))
     \<lparr>authorization = None,
      req_body = Parsed (JObj [(js ''token'', JStr (js ''12345''))])\<rparr> (0::nat) =
   (error_response (js ''Authorization token is required'') 401, 0)"
    by (simp add: twofa_PUT_def twofa_PUT_catch_def validateUserToken_def Error_def)
  have array: "twofa_by_email_PUT example_runtime (js ''2024-01-01T00:00:00.000Z'')
     (recording_action (JBool True))
     \<lparr>authorization = None,
      req_body = Parsed (JObj [(js ''email'', JStr (js ''user@example.com'')),
                               (js ''token'', JArr [JStr (js ''123456'')])])\<rparr> [] =
   (success_response (JObj [(js ''verified'', JBool True),
                            (js ''timestamp'', JStr (js ''2024-01-01T00:00:00.000Z''))])
      (js ''2FA verified successfully'') 200,
    [(js ''user@example.com'', JArr [JStr (js ''123456'')])])"
    by (simp add: twofa_by_email_PUT_def regex_test_def recording_action_def six email lower)
  have number: "snd (twofa_PUT (\<lambda>t. Returns (JObj [(js ''userId'', JStr (js ''u1''))]))
     (recording_action (JBool True))
     \<lparr>authorization = Some (js ''Bearer abc''),
      req_body = Parsed (JObj [(js ''token'', JNum (js ''123456''))])\<rparr> []) =
   [(JStr (js ''u1''), JNum (js ''123456''))]"
    by (simp add: twofa_PUT_def validateUserToken_def regex_test_def recording_action_def six)
  have no_form: "twofa_by_email_PUT example_runtime (js ''2024-01-01T00:00:00.000Z'')
     (\<lambda>a s. (Returns JNull, s))
     \<lparr>authorization = None,
      req_body = Parsed (JObj [(js ''email'', JObj [(js ''toString'', JNum (js ''1''))]),
                               (js ''token'', JStr (js ''12345''))])\<rparr> (0::nat) =
   (error_response (js ''Cannot convert object to primitive value'') 500, 0)"
    by (simp add: twofa_by_email_PUT_def regex_test_def twofa_by_email_PUT_catch_no_string_form)
  from five no_token array number no_form show ?thesis by (intro conjI)
qed

section \<open>Rejected session tokens\<close>

lemma recovery_codes_POST_rejected:
  assumes "token_rejected validateToken req"
  shows "answers_before_action (recovery_codes_POST validateToken) req st"
proof -
  let ?r = "fst (recovery_codes_POST validateToken (\<lambda>u s. (Returns JNull, s)) req st)"
  have "\<And>act. recovery_codes_POST validateToken act req st = (?r, st)"
    using assms by (auto simp add: token_rejected_def recovery_codes_POST_def split: outcome.splits)
  moreover have "\<not> is_success ?r"
    using assms by (auto simp add: token_rejected_def recovery_codes_POST_def
        recovery_codes_POST_catch_def split: outcome.splits)
  ultimately show ?thesis by (rule answers_before_actionI)
qed

lemma recovery_codes_GET_rejected:
  assumes "token_rejected validateToken req"
  shows "answers_before_action (recovery_codes_GET validateToken) req st"
proof -
  let ?r = "fst (recovery_codes_GET validateToken (\<lambda>u s. (Returns JNull, s)) req st)"
  have "\<And>act. recovery_codes_GET validateToken act req st = (?r, st)"
    using assms by (auto simp add: token_rejected_def recovery_codes_GET_def split: outcome.splits)
  moreover have "\<not> is_success ?r"
    using assms by (auto simp add: token_rejected_def recovery_codes_GET_def
        recovery_codes_GET_catch_def split: outcome.splits)
  ultimately show ?thesis by (rule answers_before_actionI)
qed

text \<open>
  Every token-protected handler answers a rejected session token before its action is
  called, and the profile and 2FA handlers answer it 401.
\<close>

lemma rejected_token_answered_before_action:
  assumes "token_rejected validateToken req"
  shows "answers_before_action (profile_GET validateToken) req st \<and>
         status_code (fst (profile_GET validateToken getUserById req st)) = 401 \<and>
         answers_before_action (twofa_POST validateToken) req st \<and>
         status_code (fst (twofa_POST validateToken generate2fa req st)) = 401 \<and>
         answers_before_action (twofa_PUT validateToken) req st \<and>
         status_code (fst (twofa_PUT validateToken verify2fa req st)) = 401 \<and>
         answers_before_action (twofa_GET validateToken) req st \<and>
         status_code (fst (twofa_GET validateToken getTwofaByUserId req st)) = 401 \<and>
         answers_before_action (twofa_DELETE validateToken) req st \<and>
         status_code (fst (twofa_DELETE validateToken delete2fa req st)) = 401 \<and>
         answers_before_action (recovery_codes_POST validateToken) req st \<and>
         answers_before_action (recovery_codes_GET validateToken) req st"
  by (simp add: profile_GET_rejected [OF assms] twofa_POST_rejected [OF assms]
      twofa_PUT_rejected [OF assms] twofa_GET_rejected [OF assms] twofa_DELETE_rejected [OF assms]
      recovery_codes_POST_rejected [OF assms] recovery_codes_GET_rejected [OF assms])

text \<open>
  Claim C10. The token-protected handlers answer a missing or rejected session token
  before their action is called. The profile and 2FA handlers answer 401 in every such
  case: they catch what \<^verbatim>\<open>validateToken\<close> throws. The recovery-code handlers call
  \<^verbatim>\<open>validateToken\<close> with no \<^verbatim>\<open>try\<close> of its own: an exception that is not
  named \<^verbatim>\<open>ValidationError\<close> (or \<^verbatim>\<open>DatabaseError\<close>) falls to the last branch
  of their \<^verbatim>\<open>catch\<close> block and is answered 500 with the exception's message,
  where the claim has 401.
\<close>

theorem recovery_codes_answer_500_when_validateToken_throws:
  assumes "present (authorization req)"
    and "validateToken (the (authorization req)) = Throws err"
    and "err_name err \<noteq> js ''ValidationError''" and "err_name err \<noteq> js ''DatabaseError''"
  shows "token_rejected validateToken req \<and>
         recovery_codes_POST validateToken bulkCreateRecoveryCodes req st =
           (error_response (message_or err (js ''Internal server error'')) 500, st) \<and>
         recovery_codes_GET validateToken getAllUserRecoveryCodes req st =
           (error_response (message_or err (js ''Internal server error'')) 500, st) \<and>
         profile_GET validateToken getUserById req st =
           (error_response (js ''Invalid or expired token'') 401, st) \<and>
         twofa_POST validateToken generate2fa req st =
           (error_response (js ''Invalid or expired token'') 401, st) \<and>
         twofa_PUT validateToken verify2fa req st =
           (error_response (js ''Invalid or expired token'') 401, st) \<and>
         twofa_GET validateToken getTwofaByUserId req st =
           (error_response (js ''Invalid or expired token'') 401, st) \<and>
         twofa_DELETE validateToken delete2fa req st =
           (error_response (js ''Invalid or expired token'') 401, st)"
proof -
  have user: "validateUserToken validateToken req = Throws (Error (js ''Invalid or expired token''))"
    using assms by (simp add: validateUserToken_def)
  have rejected: "token_rejected validateToken req"
    using assms by (simp add: token_rejected_def)
  have post: "recovery_codes_POST validateToken bulkCreateRecoveryCodes req st =
           (error_response (message_or err (js ''Internal server error'')) 500, st)"
    using assms by (simp add: recovery_codes_POST_def recovery_codes_POST_catch_def)
  have get: "recovery_codes_GET validateToken getAllUserRecoveryCodes req st =
           (error_response (message_or err (js ''Internal server error'')) 500, st)"
    using assms by (simp add: recovery_codes_GET_def recovery_codes_GET_catch_def)
  have profile: "profile_GET validateToken getUserById req st =
           (error_response (js ''Invalid or expired token'') 401, st)"
    using assms by (simp add: profile_GET_def)
  have "twofa_POST validateToken generate2fa req st =
           (error_response (js ''Invalid or expired token'') 401, st)"
    and "twofa_PUT validateToken verify2fa req st =
           (error_response (js ''Invalid or expired token'') 401, st)"
    and "twofa_GET validateToken getTwofaByUserId req st =
           (error_response (js ''Invalid or expired token'') 401, st)"
    and "twofa_DELETE validateToken delete2fa req st =
           (error_response (js ''Invalid or expired token'') 401, st)"
    by (simp_all add: user twofa_POST_def twofa_POST_catch_def twofa_PUT_def twofa_PUT_catch_def
        twofa_GET_def twofa_GET_catch_def twofa_DELETE_def twofa_DELETE_catch_def Error_def)
  with rejected post get profile show ?thesis by (intro conjI)
qed

theorem recovery_codes_answer_500_when_validateToken_throws_witness:
  "recovery_codes_POST
     (\<lambda>t. Throws \<lparr>err_name = js ''JsonWebTokenError'', err_message = js ''jwt malformed'',
                   err_code = None, err_statusCode = None, err_target = None\<rparr>)
     (\<lambda>a s. (Returns JNull, Suc s))
     \<lparr>authorization = Some (js ''Bearer garbage''), req_body = InvalidJson\<rparr> (0::nat) =
   (error_response (js ''jwt malformed'') 500, 0) \<and>
   recovery_codes_GET
     (\<lambda>t. Throws \<lparr>err_name = js ''JsonWebTokenError'', err_message = js ''jwt malformed'',
                   err_code = None, err_statusCode = None, err_target = None\<rparr>)
     (\<lambda>a s. (Returns JNull, Suc s))
     \<lparr>authorization = Some (js ''Bearer garbage''), req_body = InvalidJson\<rparr> (0::nat) =
   (error_response (js ''jwt malformed'') 500, 0) \<and>
   profile_GET
     (\<lambda>t. Throws \<lparr>err_name = js ''JsonWebTokenError'', err_message = js ''jwt malformed'',
                   err_code = None, err_statusCode = None, err_target = None\<rparr>)
     (\<lambda>a s. (Returns JNull, Suc s))
     \<lparr>authorization = Some (js ''Bearer garbage''), req_body = InvalidJson\<rparr> (0::nat) =
   (error_response (js ''Invalid or expired token'') 401, 0) \<and>
   twofa_GET
     (\<lambda>t. Throws \<lparr>err_name = js ''JsonWebTokenError'', err_message = js ''jwt malformed'',
                   err_code = None, err_statusCode = None, err_target = None\<rparr>)
     (\<lambda>a s. (Returns JNull, Suc s))
     \<lparr>authorization = Some (js ''Bearer garbage''), req_body = InvalidJson\<rparr> (0::nat) =
   (error_response (js ''Invalid or expired token'') 401, 0)"
  using recovery_codes_answer_500_when_validateToken_throws
    [of "\<lparr>authorization = Some (js ''Bearer garbage''), req_body = InvalidJson\<rparr>"
        "\<lambda>t. Throws \<lparr>err_name = js ''JsonWebTokenError'', err_message = js ''jwt malformed'',
                   err_code = None, err_statusCode = None, err_target = None\<rparr>"
        "\<lparr>err_name = js ''JsonWebTokenError'', err_message = js ''jwt malformed'',
                   err_code = None, err_statusCode = None, err_target = None\<rparr>"
        "\<lambda>a s. (Returns JNull, Suc s)" "0::nat" "\<lambda>a s. (Returns JNull, Suc s)"
        "\<lambda>a s. (Returns JNull, Suc s)" "\<lambda>a s. (Returns JNull, Suc s)" "\<lambda>a s. (Returns JNull, Suc s)"
        "\<lambda>a s. (Returns JNull, Suc s)" "\<lambda>a s. (Returns JNull, Suc s)"]
  by (simp add: message_or_def)

section \<open>What the success bodies contain\<close>

lemma register_success_body:
  assumes "is_success (fst (register_POST rt schema createUser req st))"
  shows "\<exists>body input user. req_body req = Parsed body \<and>
           sanitizedData rt body = Returns input \<and>
           fst (createUser input st) = Returns user \<and>
           response_data (fst (register_POST rt schema createUser req st)) =
             JObj [(js ''id'', get_prop user (js ''id'')), (js ''email'', get_prop user (js ''email'')),
                   (js ''name'', if truthy (get_prop user (js ''name'')) then get_prop user (js ''name'')
                                 else get_prop user (js ''full_name'')),
                   (js ''createdAt'', get_prop user (js ''createdAt''))]"
proof (cases "req_body req")
  case InvalidJson
  with assms show ?thesis by (simp add: register_POST_def)
next
  case (Parsed body)
  show ?thesis
  proof (cases "sanitizedData rt body")
    case (Throws err)
    with assms Parsed show ?thesis
      by (simp add: register_POST_def register_POST_catch_not_success
          split: if_splits zod_result.splits outcome.splits)
  next
    case (Returns input)
    obtain out st' where call: "createUser input st = (out, st')"
      by (cases "createUser input st")
    show ?thesis
    proof (cases out)
      case (Throws err)
      with assms Parsed Returns call show ?thesis
        by (simp add: register_POST_def register_POST_catch_not_success
            split: if_splits zod_result.splits outcome.splits)
    next
      case user: (Returns user)
      with assms Parsed Returns call show ?thesis
        by (simp add: register_POST_def register_POST_catch_not_success
            split: if_splits zod_result.splits outcome.splits)
    qed
  qed
qed

lemma twofa_by_email_success_body:
  assumes "is_success (fst (twofa_by_email_POST rt getTwofaByEmail req st))"
  shows "\<exists>body email twofa. req_body req = Parsed body \<and>
           get_prop body (js ''email'') = JStr email \<and>
           fst (getTwofaByEmail (trim (toLowerCase rt email)) st) = Returns twofa \<and>
           response_data (fst (twofa_by_email_POST rt getTwofaByEmail req st)) =
             JObj [(js ''enabled'', if truthy (get_prop twofa (js ''enabled''))
                                    then get_prop twofa (js ''enabled'') else JBool False)]"
proof (cases "req_body req")
  case InvalidJson
  with assms show ?thesis by (simp add: twofa_by_email_POST_def)
next
  case (Parsed body)
  show ?thesis
  proof (cases "as_string (get_prop body (js ''email''))")
    case None
    with assms Parsed show ?thesis
      by (simp add: twofa_by_email_POST_def twofa_by_email_POST_catch_not_success
          split: if_splits outcome.splits)
  next
    case (Some email)
    then have email: "get_prop body (js ''email'') = JStr email"
      by (cases "get_prop body (js ''email'')") simp_all
    obtain out st' where call: "getTwofaByEmail (trim (toLowerCase rt email)) st = (out, st')"
      by (cases "getTwofaByEmail (trim (toLowerCase rt email)) st")
    show ?thesis
    proof (cases out)
      case (Throws err)
      with assms Parsed email call show ?thesis
        by (simp add: twofa_by_email_POST_def twofa_by_email_POST_catch_not_success
            split: if_splits outcome.splits)
    next
      case (Returns twofa)
      with assms Parsed email call show ?thesis
        by (simp add: twofa_by_email_POST_def twofa_by_email_POST_catch_not_success
            split: if_splits outcome.splits)
    qed
  qed
qed

text \<open>
  The first registration handler of \<^verbatim>\<open>src/unnamed/part_000\<close> answers a success
  with the same four properties.
\<close>

lemma register_spread_success_body:
  assumes "is_success (fst (register_POST_spread rt schema createUser req st))"
  shows "object_keys (response_data (fst (register_POST_spread rt schema createUser req st))) =
           [js ''id'', js ''email'', js ''name'', js ''createdAt'']"
proof (cases "req_body req")
  case InvalidJson
  with assms show ?thesis by (simp add: register_POST_spread_def)
next
  case (Parsed body)
  show ?thesis
  proof (cases "sanitizedData_spread rt body")
    case (Throws err)
    with assms Parsed show ?thesis
      by (simp add: register_POST_spread_def register_POST_catch_not_success
          split: if_splits zod_result.splits outcome.splits)
  next
    case (Returns input)
    obtain out st' where call: "createUser input st = (out, st')"
      by (cases "createUser input st")
    show ?thesis
    proof (cases out)
      case (Throws err)
      with assms Parsed Returns call show ?thesis
        by (simp add: register_POST_spread_def register_POST_catch_not_success
            split: if_splits zod_result.splits outcome.splits)
    next
      case user: (Returns user)
      with assms Parsed Returns call show ?thesis
        by (simp add: register_POST_spread_def register_POST_catch_not_success
            split: if_splits zod_result.splits outcome.splits)
    qed
  qed
qed

text \<open>
  Claim C9. A successful registration answers with an object of exactly the properties
  \<^verbatim>\<open>id\<close>, \<^verbatim>\<open>email\<close>, \<^verbatim>\<open>name\<close> and \<^verbatim>\<open>createdAt\<close>, each read from the
  user that \<^verbatim>\<open>createUser\<close> returned (the name from \<^verbatim>\<open>name\<close> or
  \<^verbatim>\<open>full_name\<close>): no other property of the stored user, such as the password or its
  hash, is copied. A successful 2FA status by email answers with an object of the one
  property \<^verbatim>\<open>enabled\<close>, which is the record's \<^verbatim>\<open>enabled\<close> or \<^verbatim>\<open>false\<close>: the
  secret is not copied.
\<close>

theorem success_bodies_hold_public_fields_only:
  "(is_success (fst (register_POST rt schema createUser req st)) \<longrightarrow>
      object_keys (response_data (fst (register_POST rt schema createUser req st))) =
        [js ''id'', js ''email'', js ''name'', js ''createdAt''] \<and>
      (\<exists>body input user.
         req_body req = Parsed body \<and>
         sanitizedData rt body = Returns input \<and>
         fst (createUser input st) = Returns user \<and>
         response_data (fst (register_POST rt schema createUser req st)) =
           JObj [(js ''id'', get_prop user (js ''id'')), (js ''email'', get_prop user (js ''email'')),
                 (js ''name'', if truthy (get_prop user (js ''name'')) then get_prop user (js ''name'')
                               else get_prop user (js ''full_name'')),
                 (js ''createdAt'', get_prop user (js ''createdAt''))])) \<and>
   (is_success (fst (twofa_by_email_POST rt getTwofaByEmail req' st)) \<longrightarrow>
      object_keys (response_data (fst (twofa_by_email_POST rt getTwofaByEmail req' st))) =
        [js ''enabled''] \<and>
      (\<exists>body email twofa.
         req_body req' = Parsed body \<and>
         get_prop body (js ''email'') = JStr email \<and>
         fst (getTwofaByEmail (trim (toLowerCase rt email)) st) = Returns twofa \<and>
         response_data (fst (twofa_by_email_POST rt getTwofaByEmail req' st)) =
           JObj [(js ''enabled'', if truthy (get_prop twofa (js ''enabled''))
                                  then get_prop twofa (js ''enabled'') else JBool False)]))"
proof (intro conjI impI)
  assume ok: "is_success (fst (register_POST rt schema createUser req st))"
  from register_success_body [OF ok]
  show "\<exists>body input user.
         req_body req = Parsed body \<and>
         sanitizedData rt body = Returns input \<and>
         fst (createUser input st) = Returns user \<and>
         response_data (fst (register_POST rt schema createUser req st)) =
           JObj [(js ''id'', get_prop user (js ''id'')), (js ''email'', get_prop user (js ''email'')),
                 (js ''name'', if truthy (get_prop user (js ''name'')) then get_prop user (js ''name'')
                               else get_prop user (js ''full_name'')),
                 (js ''createdAt'', get_prop user (js ''createdAt''))]" .
  then obtain user where
    "response_data (fst (register_POST rt schema createUser req st)) =
           JObj [(js ''id'', get_prop user (js ''id'')), (js ''email'', get_prop user (js ''email'')),
                 (js ''name'', if truthy (get_prop user (js ''name'')) then get_prop user (js ''name'')
                               else get_prop user (js ''full_name'')),
                 (js ''createdAt'', get_prop user (js ''createdAt''))]" by blast
  then show "object_keys (response_data (fst (register_POST rt schema createUser req st))) =
        [js ''id'', js ''email'', js ''name'', js ''createdAt'']" by simp
next
  assume ok: "is_success (fst (twofa_by_email_POST rt getTwofaByEmail req' st))"
  from twofa_by_email_success_body [OF ok]
  show "\<exists>body email twofa.
         req_body req' = Parsed body \<and>
         get_prop body (js ''email'') = JStr email \<and>
         fst (getTwofaByEmail (trim (toLowerCase rt email)) st) = Returns twofa \<and>
         response_data (fst (twofa_by_email_POST rt getTwofaByEmail req' st)) =
           JObj [(js ''enabled'', if truthy (get_prop twofa (js ''enabled''))
                                  then get_prop twofa (js ''enabled'') else JBool False)]" .
  then obtain twofa where
    "response_data (fst (twofa_by_email_POST rt getTwofaByEmail req' st)) =
           JObj [(js ''enabled'', if truthy (get_prop twofa (js ''enabled''))
                                  then get_prop twofa (js ''enabled'') else JBool False)]" by blast
  then show "object_keys (response_data (fst (twofa_by_email_POST rt getTwofaByEmail req' st))) =
        [js ''enabled'']"
    by simp
qed

theorem success_bodies_hold_public_fields_only_witness:
  "is_success (fst (register_POST example_runtime (\<lambda>body. ZodSuccess)
      (\<lambda>input s. (Returns (JObj [(js ''id'', JStr (js ''u1'')), (js ''email'', JStr (cu_email input)),
                                  (js ''password'', JStr (js ''$2b$10$hash'')),
                                  (js ''full_name'', JStr (cu_full_name input)),
                                  (js ''createdAt'', JStr (js ''2024-01-01''))]), Suc s))
      \<lparr>authorization = None,
       req_body = Parsed (JObj [(js ''email'', JStr (js ''user@example.com'')),
                                (js ''password'', JStr (js ''password123'')),
                                (js ''name'', JStr (js ''Ann''))])\<rparr> (0::nat))) \<and>
   object_keys (response_data (fst (register_POST example_runtime (\<lambda>body. ZodSuccess)
      (\<lambda>input s. (Returns (JObj [(js ''id'', JStr (js ''u1'')), (js ''email'', JStr (cu_email input)),
                                  (js ''password'', JStr (js ''$2b$10$hash'')),
                                  (js ''full_name'', JStr (cu_full_name input)),
                                  (js ''createdAt'', JStr (js ''2024-01-01''))]), Suc s))
      \<lparr>authorization = None,
       req_body = Parsed (JObj [(js ''email'', JStr (js ''user@example.com'')),
                                (js ''password'', JStr (js ''password123'')),
                                (js ''name'', JStr (js ''Ann''))])\<rparr> (0::nat)))) =
     [js ''id'', js ''email'', js ''name'', js ''createdAt''] \<and>
   is_success (fst (twofa_by_email_POST example_runtime
      (\<lambda>email s. (Returns (JObj [(js ''secret'', JStr (js ''JBSWY3DPEHPK3PXP'')),
                                  (js ''enabled'', JBool True)]), s))
      \<lparr>authorization = None,
       req_body = Parsed (JObj [(js ''email'', JStr (js ''user@example.com''))])\<rparr> (0::nat))) \<and>
   object_keys (response_data (fst (twofa_by_email_POST example_runtime
      (\<lambda>email s. (Returns (JObj [(js ''secret'', JStr (js ''JBSWY3DPEHPK3PXP'')),
                                  (js ''enabled'', JBool True)]), s))
      \<lparr>authorization = None,
       req_body = Parsed (JObj [(js ''email'', JStr (js ''user@example.com''))])\<rparr> (0::nat)))) =
     [js ''enabled'']"
proof -
  have email: "emailRegex (js ''user@example.com'')"
    by (simp add: emailRegex_def email_unit_def is_ws_def js_def)
  have registered: "is_success (fst (register_POST example_runtime (\<lambda>body. ZodSuccess)
      (\<lambda>input s. (Returns (JObj [(js ''id'', JStr (js ''u1'')), (js ''email'', JStr (cu_email input)),
                                  (js ''password'', JStr (js ''$2b$10$hash'')),
                                  (js ''full_name'', JStr (cu_full_name input)),
                                  (js ''createdAt'', JStr (js ''2024-01-01''))]), Suc s))
      \<lparr>authorization = None,
       req_body = Parsed (JObj [(js ''email'', JStr (js ''user@example.com'')),
                                (js ''password'', JStr (js ''password123'')),
                                (js ''name'', JStr (js ''Ann''))])\<rparr> (0::nat)))"
    by (simp add: register_POST_def debug_log_throws_def missingFields_def regex_test_def
        sanitizedData_def email)
  have status: "is_success (fst (twofa_by_email_POST example_runtime
      (\<lambda>email s. (Returns (JObj [(js ''secret'', JStr (js ''JBSWY3DPEHPK3PXP'')),
                                  (js ''enabled'', JBool True)]), s))
      \<lparr>authorization = None,
       req_body = Parsed (JObj [(js ''email'', JStr (js ''user@example.com''))])\<rparr> (0::nat)))"
    by (simp add: twofa_by_email_POST_def regex_test_def email)
  show ?thesis
    using registered status
      success_bodies_hold_public_fields_only
        [of example_runtime "\<lambda>body. ZodSuccess"
          "\<lambda>input s. (Returns (JObj [(js ''id'', JStr (js ''u1'')), (js ''email'', JStr (cu_email input)),
                                  (js ''password'', JStr (js ''$2b$10$hash'')),
                                  (js ''full_name'', JStr (cu_full_name input)),
                                  (js ''createdAt'', JStr (js ''2024-01-01''))]), Suc s)"
          "\<lparr>authorization = None,
            req_body = Parsed (JObj [(js ''email'', JStr (js ''user@example.com'')),
                                (js ''password'', JStr (js ''password123'')),
                                (js ''name'', JStr (js ''Ann''))])\<rparr>" "0::nat"
          "\<lambda>email s. (Returns (JObj [(js ''secret'', JStr (js ''JBSWY3DPEHPK3PXP'')),
                                  (js ''enabled'', JBool True)]), s)"
          "\<lparr>authorization = None,
            req_body = Parsed (JObj [(js ''email'', JStr (js ''user@example.com''))])\<rparr>"]
    by blast
qed

section \<open>Registration failures\<close>

lemma register_conflict_only_for_P2002:
  assumes "status_code (register_POST_catch err) = 409"
  shows "err_code err = Some (js ''P2002'') \<or> err_statusCode err = Some 409"
  using assms
  by (auto simp add: register_POST_catch_def statusCode_or_500_def split: if_splits option.splits)

text \<open>
  Claim C7. The registration handler writes the email to its debug log before it
  validates anything: \<^verbatim>\<open>body.email.split("@")\<close> throws for an email that is truthy
  and not a string, and the \<^verbatim>\<open>catch\<close> block answers 500 with the message of the
  \<^verbatim>\<open>TypeError\<close>, whatever the password is. A password shorter than 8 characters
  sent with such an email is answered 500, not 400; \<^verbatim>\<open>createUser\<close> is not called.
\<close>

theorem register_answers_500_to_email_that_is_not_a_string:
  assumes "req_body req = Parsed body"
    and "truthy (get_prop body (js ''email''))"
    and "as_string (get_prop body (js ''email'')) = None"
  shows "register_POST rt CreateUserInputValidation createUser req st =
           (error_response (js ''body.email.split is not a function'') 500, st)"
  using assms
  by (simp add: register_POST_def debug_log_throws_def register_POST_catch_def TypeError_def
      message_or_def statusCode_or_500_def)

text \<open>
  The email \<^verbatim>\<open>12345\<close>, a number, with the password \<^verbatim>\<open>short\<close>. The second
  part is the answer to a duplicate that \<^verbatim>\<open>createUser\<close> reports as the MongoDB
  driver does, with the numeric code 11000: the handler answers 409 to the code
  \<^verbatim>\<open>P2002\<close> only, and this error gets 500.
\<close>

theorem register_answers_500_to_email_that_is_not_a_string_witness:
  "register_POST example_runtime (\<lambda>body. ZodSuccess) (\<lambda>input s. (Returns JNull, Suc s))
     \<lparr>authorization = None,
      req_body = Parsed (JObj [(js ''email'', JNum (js ''12345'')),
                               (js ''password'', JStr (js ''short''))])\<rparr> (0::nat) =
   (error_response (js ''body.email.split is not a function'') 500, 0) \<and>
   register_POST example_runtime (\<lambda>body. ZodSuccess)
     (\<lambda>input s. (Throws \<lparr>err_name = js ''MongoServerError'',
                            err_message = js ''E11000 duplicate key error'',
                            err_code = None, err_statusCode = None, err_target = None\<rparr>, s))
     \<lparr>authorization = None,
      req_body = Parsed (JObj [(js ''email'', JStr (js ''user@example.com'')),
                               (js ''password'', JStr (js ''password123''))])\<rparr> (0::nat) =
   (error_response (js ''E11000 duplicate key error'') 500, 0)"
proof -
  have email: "emailRegex (js ''user@example.com'')"
    by (simp add: emailRegex_def email_unit_def is_ws_def js_def)
  have duplicate: "register_POST example_runtime (\<lambda>body. ZodSuccess)
     (\<lambda>input s. (Throws \<lparr>err_name = js ''MongoServerError'',
                            err_message = js ''E11000 duplicate key error'',
                            err_code = None, err_statusCode = None, err_target = None\<rparr>, s))
     \<lparr>authorization = None,
      req_body = Parsed (JObj [(js ''email'', JStr (js ''user@example.com'')),
                               (js ''password'', JStr (js ''password123''))])\<rparr> (0::nat) =
   (error_response (js ''E11000 duplicate key error'') 500, 0)"
    by (simp add: register_POST_def debug_log_throws_def missingFields_def regex_test_def
        sanitizedData_def register_POST_catch_def message_or_def statusCode_or_500_def email)
  show ?thesis
    using duplicate
      register_answers_500_to_email_that_is_not_a_string
        [of "\<lparr>authorization = None,
              req_body = Parsed (JObj [(js ''email'', JNum (js ''12345'')),
                                       (js ''password'', JStr (js ''short''))])\<rparr>"
            "JObj [(js ''email'', JNum (js ''12345'')), (js ''password'', JStr (js ''short''))]"
            example_runtime "\<lambda>body. ZodSuccess" "\<lambda>input s. (Returns JNull, Suc s)" "0::nat"]
    by simp
qed

section \<open>Failure responses of the by-email operations\<close>




section \<open>Emails that differ only in letter case\<close>

text \<open>
  Claim C8. The registration handler and the 2FA handlers by email lower-case and trim
  the email before they call their action. The login handler and the recovery-code
  verification handler do not: they hand the email to \<^verbatim>\<open>loginUser\<close> and to
  \<^verbatim>\<open>getRecoveryCodeForSignin\<close> as it was submitted.
\<close>

theorem login_forwards_email_as_submitted:
  assumes "req_body req = Parsed body"
    and "get_prop body (js ''email'') = JStr email" and "emailRegex email"
    and "truthy (get_prop body (js ''password''))" and "truthy (get_prop body (js ''code''))"
    and "LoginUserInputValidation body = ZodSuccess"
  shows "snd (login_POST LoginUserInputValidation (recording_action result) req []) =
           [(JStr email, get_prop body (js ''password''))] \<and>
         snd (recovery_codes_PUT (recording_action result) req []) =
           [(JStr email, get_prop body (js ''code''))] \<and>
         snd (twofa_by_email_POST rt (recording_action result) req []) =
           [trim (toLowerCase rt email)]"
proof -
  from assms(3) have nonempty: "email \<noteq> []"
    by (auto simp add: emailRegex_def)
  with assms(2) have email: "truthy (get_prop body (js ''email''))" by simp
  from get_prop_truthy [OF email] have body: "truthy body" "typeof_object body" by simp_all
  have login: "snd (login_POST LoginUserInputValidation (recording_action result) req []) =
           [(JStr email, get_prop body (js ''password''))]"
    using assms nonempty body
    by (simp add: login_POST_def debug_log_throws_def recording_action_def)
  have recovery: "snd (recovery_codes_PUT (recording_action result) req []) =
           [(JStr email, get_prop body (js ''code''))]"
    using assms nonempty
    by (simp add: recovery_codes_PUT_def regex_test_def recording_action_def)
  have status: "snd (twofa_by_email_POST rt (recording_action result) req []) =
           [trim (toLowerCase rt email)]"
    using assms nonempty body
    by (simp add: twofa_by_email_POST_def regex_test_def recording_action_def)
  from login recovery status show ?thesis by (intro conjI)
qed

text \<open>
  An account registered as \<^verbatim>\<open>user@example.com\<close> and a login as
  \<^verbatim>\<open>User@Example.com\<close>: \<^verbatim>\<open>loginUser\<close> and
  \<^verbatim>\<open>getRecoveryCodeForSignin\<close> are called with the capitals, the action of the
  2FA status by email with the lower-case form. Of the registration handlers, the one of
  \<^verbatim>\<open>app/api/register/route.ts\<close> hands \<^verbatim>\<open>createUser\<close> the lower-case form,
  and the first one of \<^verbatim>\<open>src/unnamed/part_000\<close> hands it an object whose email is
  the submitted one: spreading the body last puts the submitted email over the
  lower-cased one.
\<close>

theorem login_forwards_email_as_submitted_witness:
  "snd (login_POST (\<lambda>body. ZodSuccess) (recording_action JNull)
     \<lparr>authorization = None,
      req_body = Parsed (JObj [(js ''email'', JStr (js ''User@Example.com'')),
                               (js ''password'', JStr (js ''password123'')),
                               (js ''code'', JStr (js ''ABCD-1234''))])\<rparr> []) =
     [(JStr (js ''User@Example.com''), JStr (js ''password123''))] \<and>
   snd (recovery_codes_PUT (recording_action JNull)
     \<lparr>authorization = None,
      req_body = Parsed (JObj [(js ''email'', JStr (js ''User@Example.com'')),
                               (js ''password'', JStr (js ''password123'')),
                               (js ''code'', JStr (js ''ABCD-1234''))])\<rparr> []) =
     [(JStr (js ''User@Example.com''), JStr (js ''ABCD-1234''))] \<and>
   snd (twofa_by_email_POST example_runtime (recording_action JNull)
     \<lparr>authorization = None,
      req_body = Parsed (JObj [(js ''email'', JStr (js ''User@Example.com'')),
                               (js ''password'', JStr (js ''password123'')),
                               (js ''code'', JStr (js ''ABCD-1234''))])\<rparr> []) =
     [js ''user@example.com''] \<and>
   map cu_email (snd (register_POST example_runtime (\<lambda>body. ZodSuccess) (recording_action JNull)
     \<lparr>authorization = None,
      req_body = Parsed (JObj [(js ''email'', JStr (js ''User@Example.com'')),
                               (js ''password'', JStr (js ''password123'')),
                               (js ''code'', JStr (js ''ABCD-1234''))])\<rparr> [])) =
     [js ''user@example.com''] \<and>
   map (\<lambda>input. get_prop input (js ''email''))
     (snd (register_POST_spread example_runtime (\<lambda>body. ZodSuccess) (recording_action JNull)
     \<lparr>authorization = None,
      req_body = Parsed (JObj [(js ''email'', JStr (js ''User@Example.com'')),
                               (js ''password'', JStr (js ''password123'')),
                               (js ''code'', JStr (js ''ABCD-1234''))])\<rparr> [])) =
     [JStr (js ''User@Example.com'')]"
proof -
  let ?req = "\<lparr>authorization = None,
      req_body = Parsed (JObj [(js ''email'', JStr (js ''User@Example.com'')),
                               (js ''password'', JStr (js ''password123'')),
                               (js ''code'', JStr (js ''ABCD-1234''))])\<rparr>"
  have email: "emailRegex (js ''User@Example.com'')"
    by (simp add: emailRegex_def email_unit_def is_ws_def js_def)
  have lower: "trim (toLowerCase example_runtime (js ''User@Example.com'')) = js ''user@example.com''"
    by (simp add: example_runtime_def trim_def is_ws_def js_def)
  have route: "map cu_email (snd (register_POST example_runtime (\<lambda>body. ZodSuccess)
      (recording_action JNull) ?req [])) = [js ''user@example.com'']"
    by (simp add: register_POST_def debug_log_throws_def missingFields_def regex_test_def
        sanitizedData_def recording_action_def email lower)
  have copy: "map (\<lambda>input. get_prop input (js ''email''))
      (snd (register_POST_spread example_runtime (\<lambda>body. ZodSuccess) (recording_action JNull) ?req [])) =
      [JStr (js ''User@Example.com'')]"
    by (simp add: register_POST_spread_def debug_log_throws_def missingFields_def regex_test_def
        sanitizedData_spread_def recording_action_def email lower)
  show ?thesis
    using route copy lower
      login_forwards_email_as_submitted
        [of ?req "JObj [(js ''email'', JStr (js ''User@Example.com'')),
                        (js ''password'', JStr (js ''password123'')),
                        (js ''code'', JStr (js ''ABCD-1234''))]"
            "js ''User@Example.com''" "\<lambda>body. ZodSuccess" JNull example_runtime, OF _ _ email]
    by simp
qed

section \<open>Recovery codes are used once\<close>



section \<open>Consuming a recovery code\<close>

lemma consume_first_none:
  assumes "\<forall>c \<in> set cs. code_hash c = h \<longrightarrow> consumed c"
  shows "consume_first h now cs = None"
  using assms by (induction cs) auto

section \<open>A new batch replaces the old one\<close>

lemma consume_in_sets_new_batch:
  assumes "h \<notin> H ` set drawn"
  shows "consume_in_sets uid h now (\<lparr>set_owner = uid, set_codes = map (stored_code H) drawn\<rparr> # rest) = None"
proof -
  have "\<forall>c \<in> set (map (stored_code H) drawn). code_hash c = h \<longrightarrow> consumed c"
    using assms by (auto simp add: stored_code_def)
  from consume_first_none [OF this] show ?thesis by simp
qed

lemma filter_owner_other:
  assumes "u \<noteq> uid"
  shows "filter (\<lambda>s. set_owner s = u) (filter (\<lambda>s. set_owner s \<noteq> uid) sets) =
         filter (\<lambda>s. set_owner s = u) sets"
  using assms by (induction sets) auto

lemma filter_owner_self:
  "filter (\<lambda>s. set_owner s = uid) (filter (\<lambda>s. set_owner s \<noteq> uid) sets) = []"
  by (induction sets) auto

text \<open>
  Claim C2, as the specification's manager has it. Generating a batch of 16 distinct
  codes replaces every set the user had: afterwards the store holds exactly one set for
  the user, with the 16 new codes, and the other users' sets and the users are as they
  were. A code is refused afterwards when its hash is not the hash of one of the new
  codes; uniqueness is checked within the new batch only, so a code of the prior batch
  that is drawn again is valid again.
\<close>

theorem new_batch_replaces_prior_batch:
  assumes "generateBatch H drawn uid st = Some (plain, st1)"
  shows "plain = drawn \<and> length plain = 16 \<and>
         filter (\<lambda>s. set_owner s = uid) (recovery_sets st1) =
           [\<lparr>set_owner = uid, set_codes = map (stored_code H) drawn\<rparr>] \<and>
         length (set_codes (the (active_batch st1 uid))) = 16 \<and>
         (\<forall>u. u \<noteq> uid \<longrightarrow>
            filter (\<lambda>s. set_owner s = u) (recovery_sets st1) =
            filter (\<lambda>s. set_owner s = u) (recovery_sets st)) \<and>
         user_by_email st1 = user_by_email st \<and>
         (user_by_email st email = Some uid \<and> H old \<notin> H ` set drawn \<longrightarrow>
            verifyAndConsume H now email old st1 = (False, st1))"
proof -
  from assms have ok: "length drawn = 16" "distinct drawn"
    by (simp_all add: generateBatch_def split: if_splits)
  with assms have plain: "plain = drawn"
    and st1: "st1 = st\<lparr>recovery_sets :=
                  \<lparr>set_owner = uid, set_codes = map (stored_code H) drawn\<rparr> #
                  filter (\<lambda>s. set_owner s \<noteq> uid) (recovery_sets st)\<rparr>"
    by (auto simp add: generateBatch_def)
  have one: "filter (\<lambda>s. set_owner s = uid) (recovery_sets st1) =
           [\<lparr>set_owner = uid, set_codes = map (stored_code H) drawn\<rparr>]"
    by (simp add: st1 filter_owner_self)
  have sixteen: "length (set_codes (the (active_batch st1 uid))) = 16"
    by (simp add: st1 active_batch_def ok(1))
  have others: "\<forall>u. u \<noteq> uid \<longrightarrow>
            filter (\<lambda>s. set_owner s = u) (recovery_sets st1) =
            filter (\<lambda>s. set_owner s = u) (recovery_sets st)"
    by (simp add: st1 filter_owner_other del: filter_filter)
  have users: "user_by_email st1 = user_by_email st"
    by (simp add: st1)
  have refused: "verifyAndConsume H now email old st1 = (False, st1)"
    if "user_by_email st email = Some uid" and "H old \<notin> H ` set drawn"
    using that(1) consume_in_sets_new_batch [OF that(2)]
    by (simp add: verifyAndConsume_def st1)
  from plain ok(1) one sixteen others users refused show ?thesis by blast
qed

theorem new_batch_replaces_prior_batch_witness:
  "generateBatch (\<lambda>code. ''#'' @ code)
     [''C01'', ''C02'', ''C03'', ''C04'', ''C05'', ''C06'', ''C07'', ''C08'',
      ''C09'', ''C10'', ''C11'', ''C12'', ''C13'', ''C14'', ''C15'', ''C16'']
     ''u1''
     \<lparr>user_by_email = [''user@example.com'' \<mapsto> ''u1''],
      recovery_sets = [\<lparr>set_owner = ''u1'',
        set_codes = [\<lparr>code_hash = ''#OLD-01'', consumed = False, consumed_at = None\<rparr>]\<rparr>]\<rparr> \<noteq> None \<and>
   verifyAndConsume (\<lambda>code. ''#'' @ code) 1700000000 ''user@example.com'' ''OLD-01''
     (snd (the (generateBatch (\<lambda>code. ''#'' @ code)
       [''C01'', ''C02'', ''C03'', ''C04'', ''C05'', ''C06'', ''C07'', ''C08'',
        ''C09'', ''C10'', ''C11'', ''C12'', ''C13'', ''C14'', ''C15'', ''C16'']
       ''u1''
       \<lparr>user_by_email = [''user@example.com'' \<mapsto> ''u1''],
        recovery_sets = [\<lparr>set_owner = ''u1'',
          set_codes = [\<lparr>code_hash = ''#OLD-01'', consumed = False, consumed_at = None\<rparr>]\<rparr>]\<rparr>))) =
   (False,
     snd (the (generateBatch (\<lambda>code. ''#'' @ code)
       [''C01'', ''C02'', ''C03'', ''C04'', ''C05'', ''C06'', ''C07'', ''C08'',
        ''C09'', ''C10'', ''C11'', ''C12'', ''C13'', ''C14'', ''C15'', ''C16'']
       ''u1''
       \<lparr>user_by_email = [''user@example.com'' \<mapsto> ''u1''],
        recovery_sets = [\<lparr>set_owner = ''u1'',
          set_codes = [\<lparr>code_hash = ''#OLD-01'', consumed = False, consumed_at = None\<rparr>]\<rparr>]\<rparr>)))"
proof -
  let ?H = "\<lambda>code. ''#'' @ code"
  let ?drawn = "[''C01'', ''C02'', ''C03'', ''C04'', ''C05'', ''C06'', ''C07'', ''C08'',
      ''C09'', ''C10'', ''C11'', ''C12'', ''C13'', ''C14'', ''C15'', ''C16'']"
  let ?st = "\<lparr>user_by_email = [''user@example.com'' \<mapsto> ''u1''],
      recovery_sets = [\<lparr>set_owner = ''u1'',
        set_codes = [\<lparr>code_hash = ''#OLD-01'', consumed = False, consumed_at = None\<rparr>]\<rparr>]\<rparr>"
  obtain st1 where gen: "generateBatch ?H ?drawn ''u1'' ?st = Some (?drawn, st1)"
    by (simp add: generateBatch_def)
  have user: "user_by_email ?st ''user@example.com'' = Some ''u1''" by simp
  have fresh: "?H ''OLD-01'' \<notin> ?H ` set ?drawn" by simp
  from new_batch_replaces_prior_batch [OF gen, of "''user@example.com''" "''OLD-01''" 1700000000]
    user fresh
  have "verifyAndConsume ?H 1700000000 ''user@example.com'' ''OLD-01'' st1 = (False, st1)"
    by blast
  with gen show ?thesis by simp
qed

text \<open>
  The claim as stated fails when the new batch draws a code of the prior batch again:
  the old code \<^verbatim>\<open>C01\<close> is accepted after the new batch is generated.
\<close>

theorem old_code_drawn_again_counterexample:
  "map_option (\<lambda>generated. fst (verifyAndConsume (\<lambda>code. ''#'' @ code) 1700000000
                                   ''user@example.com'' ''C01'' (snd generated)))
     (generateBatch (\<lambda>code. ''#'' @ code)
        [''C01'', ''C02'', ''C03'', ''C04'', ''C05'', ''C06'', ''C07'', ''C08'',
         ''C09'', ''C10'', ''C11'', ''C12'', ''C13'', ''C14'', ''C15'', ''C16'']
        ''u1''
        \<lparr>user_by_email = [''user@example.com'' \<mapsto> ''u1''],
         recovery_sets = [\<lparr>set_owner = ''u1'',
           set_codes = [\<lparr>code_hash = ''#C01'', consumed = True, consumed_at = Some 1600000000\<rparr>,
                        \<lparr>code_hash = ''#OLD-02'', consumed = False, consumed_at = None\<rparr>]\<rparr>]\<rparr>) =
   Some True"
  by (simp add: generateBatch_def verifyAndConsume_def stored_code_def)

section \<open>The acceptance window of the TOTP engine\<close>

lemma step_before:
  assumes "t1 div 30 + 1 = t div (30::nat)"
  shows "30 \<le> t \<and> (t - 30) div 30 = t1 div 30"
proof -
  have late: "30 \<le> t"
  proof (rule ccontr)
    assume "\<not> 30 \<le> t"
    then have "t div 30 = 0" by simp
    with assms show False by simp
  qed
  then have "t div 30 = Suc ((t - 30) div 30)"
    by (simp add: le_div_geq)
  with assms late show ?thesis by simp
qed

text \<open>
  Claim C3, as the specification's engine has it. For a secret whose codes are 6 digits,
  the code of the current step verifies, and so does a code of the step before. A code
  from two steps before is rejected when it differs from the codes of the current and
  of the preceding step: codes have 6 digits, so two steps may share a code, and the
  engine compares codes only.
\<close>

theorem totp_window:
  assumes "\<forall>step. is_six_digits (code_of_step secret step)"
  shows "verify code_of_step secret (currentCode code_of_step secret t) t \<and>
         (t1 div 30 + 1 = t div 30 \<longrightarrow>
            verify code_of_step secret (currentCode code_of_step secret t1) t) \<and>
         (t2 div 30 + 2 = t div 30 \<and>
          currentCode code_of_step secret t2 \<noteq> currentCode code_of_step secret t \<and>
          currentCode code_of_step secret t2 \<noteq> currentCode code_of_step secret (t - 30) \<longrightarrow>
            \<not> verify code_of_step secret (currentCode code_of_step secret t2) t)"
proof (intro conjI impI)
  show "verify code_of_step secret (currentCode code_of_step secret t) t"
    using assms by (simp add: verify_def currentCode_def)
next
  assume "t1 div 30 + 1 = t div 30"
  from step_before [OF this] assms
  show "verify code_of_step secret (currentCode code_of_step secret t1) t"
    by (simp add: verify_def currentCode_def)
next
  assume "t2 div 30 + 2 = t div 30 \<and>
          currentCode code_of_step secret t2 \<noteq> currentCode code_of_step secret t \<and>
          currentCode code_of_step secret t2 \<noteq> currentCode code_of_step secret (t - 30)"
  then show "\<not> verify code_of_step secret (currentCode code_of_step secret t2) t"
    by (simp add: verify_def)
qed

theorem totp_window_witness:
  "verify (\<lambda>secret step. if step mod 3 = 0 then ''000000''
                          else if step mod 3 = 1 then ''111111'' else ''222222'')
     ''JBSWY3DPEHPK3PXP''
     (currentCode (\<lambda>secret step. if step mod 3 = 0 then ''000000''
                          else if step mod 3 = 1 then ''111111'' else ''222222'')
        ''JBSWY3DPEHPK3PXP'' 95) 95 \<and>
   verify (\<lambda>secret step. if step mod 3 = 0 then ''000000''
                          else if step mod 3 = 1 then ''111111'' else ''222222'')
     ''JBSWY3DPEHPK3PXP''
     (currentCode (\<lambda>secret step. if step mod 3 = 0 then ''000000''
                          else if step mod 3 = 1 then ''111111'' else ''222222'')
        ''JBSWY3DPEHPK3PXP'' 61) 95 \<and>
   \<not> verify (\<lambda>secret step. if step mod 3 = 0 then ''000000''
                          else if step mod 3 = 1 then ''111111'' else ''222222'')
     ''JBSWY3DPEHPK3PXP''
     (currentCode (\<lambda>secret step. if step mod 3 = 0 then ''000000''
                          else if step mod 3 = 1 then ''111111'' else ''222222'')
        ''JBSWY3DPEHPK3PXP'' 59) 95"
proof -
  let ?g = "\<lambda>secret step. if step mod 3 = 0 then ''000000''
                          else if step mod 3 = (1::nat) then ''111111'' else ''222222''"
  have six: "\<forall>step. is_six_digits (?g ''JBSWY3DPEHPK3PXP'' step)"
    by (simp add: is_six_digits_def is_digit_def)
  have steps: "(61::nat) div 30 + 1 = 95 div 30" "(59::nat) div 30 + 2 = 95 div 30"
    by simp_all
  have differ: "currentCode ?g ''JBSWY3DPEHPK3PXP'' 59 \<noteq> currentCode ?g ''JBSWY3DPEHPK3PXP'' 95"
    "currentCode ?g ''JBSWY3DPEHPK3PXP'' 59 \<noteq> currentCode ?g ''JBSWY3DPEHPK3PXP'' (95 - 30)"
    by (simp_all add: currentCode_def)
  from totp_window [of ?g "''JBSWY3DPEHPK3PXP''" 95 61 59] six steps differ
  show ?thesis by simp
qed

text \<open>
  The claim as stated fails for a secret whose codes repeat after two steps: the code of
  step 0 is accepted at step 2.
\<close>

theorem totp_code_two_steps_old_counterexample:
  "is_six_digits ''000000'' \<and> is_six_digits ''111111'' \<and>
   verify (\<lambda>secret step. if even step then ''000000'' else ''111111'') ''JBSWY3DPEHPK3PXP''
     (currentCode (\<lambda>secret step. if even step then ''000000'' else ''111111'') ''JBSWY3DPEHPK3PXP'' 0)
     60"
  by (simp add: verify_def currentCode_def is_six_digits_def is_digit_def)

end
